theory Spec2Isabelle
  imports Main "HOL-Library.Word"
begin

section \<open>The dashboard's dynamic resource access layer\<close>

text \<open>
  A shallow embedding of three parts of the dashboard backend: the query construction of
  package \<open>dataselect\<close> (\<open>NewSortQuery\<close>, \<open>NewFilterQuery\<close>), the resource verber of
  package \<open>client\<close> (kind resolution with its package-level cache, \<open>Get\<close>, \<open>Create\<close>,
  \<open>Update\<close>, \<open>Delete\<close>) and the client registry of the same package
  (\<open>InitKubeConfig\<close>, \<open>InitKarmadaConfig\<close>, \<open>InClusterClientForMemberCluster\<close>).

  Go strings are byte strings and are modelled as \<open>string\<close>. A Go slice that may be
  \<open>nil\<close> is a \<open>list option\<close>. Package-level variables are fields of an explicit state
  that every function takes and returns. An \<open>error\<close> return is a value of type
  \<open>error\<close>; \<open>os.Exit\<close> and a nil dereference are outcomes of their own.
\<close>

subsection \<open>Package dataselect: sort and filter queries\<close>

type_synonym PropertyName = string

text \<open>The only comparable value that query construction builds is a wrapped string.\<close>

datatype ComparableValue = StdComparableString string

record SortBy =
  Property :: PropertyName
  Ascending :: bool

record SortQuery =
  SortByList :: "SortBy list"

record FilterBy =
  FilterProperty :: PropertyName
  Value :: ComparableValue

record FilterQuery =
  FilterByList :: "FilterBy list"

definition NoSort :: SortQuery where
  "NoSort = \<lparr>SortByList = []\<rparr>"

definition NoFilter :: FilterQuery where
  "NoFilter = \<lparr>FilterByList = []\<rparr>"

text \<open>
  The loop \<open>for i := 0; i+1 < len(sortByListRaw); i += 2\<close> of \<open>NewSortQuery\<close>, with the
  slice \<open>sortByList\<close> built so far. \<open>None\<close> is the early \<open>return NoSort\<close> on an order
  option other than \<open>"a"\<close> and \<open>"d"\<close>.
\<close>

function sortLoop :: "string list \<Rightarrow> nat \<Rightarrow> SortBy list \<Rightarrow> SortBy list option" where
  "sortLoop sortByListRaw i sortByList =
     (if i + 1 < length sortByListRaw then
        (let orderOption = sortByListRaw ! i in
         if orderOption = ''a'' then
           sortLoop sortByListRaw (i + 2)
             (sortByList @ [\<lparr>Property = sortByListRaw ! (i + 1), Ascending = True\<rparr>])
         else if orderOption = ''d'' then
           sortLoop sortByListRaw (i + 2)
             (sortByList @ [\<lparr>Property = sortByListRaw ! (i + 1), Ascending = False\<rparr>])
         else None)
      else Some sortByList)"
  by pat_completeness auto
termination
  by (relation "measure (\<lambda>(raw, i, acc). length raw - i)") auto

definition NewSortQuery :: "string list option \<Rightarrow> SortQuery" where
  "NewSortQuery sortByListRaw =
     (case sortByListRaw of
        None \<Rightarrow> NoSort
      | Some raw \<Rightarrow>
          if length raw mod 2 = 1 then NoSort
          else (case sortLoop raw 0 [] of
                  None \<Rightarrow> NoSort
                | Some sortByList \<Rightarrow> \<lparr>SortByList = sortByList\<rparr>))"

text \<open>The loop of \<open>NewFilterQuery\<close>; it has no early return.\<close>

function filterLoop :: "string list \<Rightarrow> nat \<Rightarrow> FilterBy list \<Rightarrow> FilterBy list" where
  "filterLoop filterByListRaw i filterByList =
     (if i + 1 < length filterByListRaw then
        filterLoop filterByListRaw (i + 2)
          (filterByList @ [\<lparr>FilterProperty = filterByListRaw ! i,
                            Value = StdComparableString (filterByListRaw ! (i + 1))\<rparr>])
      else filterByList)"
  by pat_completeness auto
termination
  by (relation "measure (\<lambda>(raw, i, acc). length raw - i)") auto

definition NewFilterQuery :: "string list option \<Rightarrow> FilterQuery" where
  "NewFilterQuery filterByListRaw =
     (case filterByListRaw of
        None \<Rightarrow> NoFilter
      | Some raw \<Rightarrow>
          if length raw mod 2 = 1 then NoFilter
          else \<lparr>FilterByList = filterLoop raw 0 []\<rparr>)"

text \<open>
  What the specification says of a raw list: the \<open>j\<close>-th pair of a sort list is a direction
  flag followed by a property name, the \<open>j\<close>-th pair of a filter list a property name
  followed by a value; the flags are the entries at the even indices.
\<close>

definition sortPair :: "string list \<Rightarrow> nat \<Rightarrow> SortBy" where
  "sortPair raw j = \<lparr>Property = raw ! (2 * j + 1), Ascending = (raw ! (2 * j) = ''a'')\<rparr>"

definition filterPair :: "string list \<Rightarrow> nat \<Rightarrow> FilterBy" where
  "filterPair raw j =
     \<lparr>FilterProperty = raw ! (2 * j), Value = StdComparableString (raw ! (2 * j + 1))\<rparr>"

definition validFlags :: "string list \<Rightarrow> bool" where
  "validFlags raw =
     (\<forall>i \<in> set [0..<length raw]. even i \<longrightarrow> raw ! i = ''a'' \<or> raw ! i = ''d'')"

subsection \<open>Package client: errors, coordinates, objects\<close>

text \<open>
  An \<open>error\<close> is either an API status error, which carries the reason the server gave, or
  any other error, of which only the message matters. \<open>fmt.Errorf\<close> with the verbs \<open>%s\<close>,
  \<open>%v\<close> and \<open>%+v\<close> builds an error of the second kind from the message of its argument:
  the argument is not wrapped, so its status is lost.
\<close>

datatype StatusReason =
  StatusReasonConflict | StatusReasonNotFound | StatusReasonOther string

datatype error = StatusError StatusReason string | ErrorString string

fun errorText :: "error \<Rightarrow> string" where
  "errorText (StatusError reason message) = message"
| "errorText (ErrorString message) = message"

fun IsConflict :: "error \<Rightarrow> bool" where
  "IsConflict (StatusError reason message) = (reason = StatusReasonConflict)"
| "IsConflict (ErrorString message) = False"

record GroupVersion =
  gvGroup :: string
  gvVersion :: string

record GroupVersionKind =
  gvkGroup :: string
  gvkVersion :: string
  gvkKind :: string

record GroupVersionResource =
  Group :: string
  Version :: string
  Resource :: string

text \<open>
  An \<open>unstructured.Unstructured\<close> object, seen through the accessors the verber uses:
  \<open>GetObjectKind().GroupVersionKind()\<close>, \<open>GetName\<close>, \<open>GetNamespace\<close>,
  \<open>GetResourceVersion\<close> and \<open>SetResourceVersion\<close>. The rest of the document is opaque.
\<close>

record Unstructured =
  objectKind :: GroupVersionKind
  objectName :: string
  objectNamespace :: string
  resourceVersion :: string
  document :: string

definition SetResourceVersion :: "string \<Rightarrow> Unstructured \<Rightarrow> Unstructured" where
  "SetResourceVersion version object = object\<lparr>resourceVersion := version\<rparr>"

record APIResource =
  Name :: string
  Kind :: string

record APIResourceList =
  GroupVersionString :: string
  APIResources :: "APIResource list"

datatype PatchType =
  JSONPatchType | MergePatchType | StrategicMergePatchType | ApplyPatchType

datatype DeletionPropagation =
  DeletePropagationOrphan | DeletePropagationBackground | DeletePropagationForeground

text \<open>Of \<open>metav1.DeleteOptions\<close>, the two fields \<open>Delete\<close> sets; \<open>None\<close> is a nil pointer.\<close>

record DeleteOptions =
  GracePeriodSeconds :: "64 word option"
  PropagationPolicy :: "DeletionPropagation option"

subsection \<open>The cluster, the libraries and the package state\<close>

text \<open>
  The verber holds a dynamic client and a discovery client. Each of their methods is a
  function of the cluster's state \<open>'w\<close>, which it may change. \<open>ServerGroupsAndResources\<close>
  returns the resource lists together with its error (it can return both).
\<close>

record 'w resourceVerber =
  clientGet :: "GroupVersionResource \<Rightarrow> string \<Rightarrow> string \<Rightarrow> 'w \<Rightarrow> (error + Unstructured) \<times> 'w"
  clientPatch :: "GroupVersionResource \<Rightarrow> string \<Rightarrow> string \<Rightarrow> PatchType \<Rightarrow> string \<Rightarrow> 'w
                  \<Rightarrow> (error + Unstructured) \<times> 'w"
  clientDelete :: "GroupVersionResource \<Rightarrow> string \<Rightarrow> string \<Rightarrow> DeleteOptions \<Rightarrow> 'w
                   \<Rightarrow> error option \<times> 'w"
  clientCreate :: "GroupVersionResource \<Rightarrow> string \<Rightarrow> Unstructured \<Rightarrow> 'w
                   \<Rightarrow> (error + Unstructured) \<times> 'w"
  discoveryServerGroupsAndResources :: "'w \<Rightarrow> (APIResourceList list \<times> error option) \<times> 'w"

text \<open>
  The library functions the verber calls are parameters: \<open>strings.ToLower\<close>,
  \<open>flect.Pluralize\<close>, \<open>Unstructured.MarshalJSON\<close>,
  \<open>jsonmergepatch.CreateThreeWayJSONMergePatch\<close> (original, modified, current) and
  \<open>schema.ParseGroupVersion\<close>.
\<close>

record library =
  ToLower :: "string \<Rightarrow> string"
  Pluralize :: "string \<Rightarrow> string"
  MarshalJSON :: "Unstructured \<Rightarrow> error + string"
  CreateThreeWayJSONMergePatch :: "string \<Rightarrow> string \<Rightarrow> string \<Rightarrow> error + string"
  ParseGroupVersion :: "string \<Rightarrow> error + GroupVersion"

text \<open>
  A request to the cluster with the answer it got. The list \<open>calls\<close> of the state records
  them in the order they were made; nothing reads it.
\<close>

datatype call =
  GetCall GroupVersionResource string string "error + Unstructured"
| PatchCall GroupVersionResource string string PatchType string "error + Unstructured"
| DeleteCall GroupVersionResource string string DeleteOptions "error option"
| CreateCall GroupVersionResource string Unstructured "error + Unstructured"
| DiscoveryCall "APIResourceList list \<times> error option"

record 'w state =
  kindToGroupVersionResource :: "string \<rightharpoonup> GroupVersionResource"
  world :: 'w
  calls :: "call list"

definition doGet ::
  "'w resourceVerber \<Rightarrow> GroupVersionResource \<Rightarrow> string \<Rightarrow> string \<Rightarrow> 'w state
   \<Rightarrow> (error + Unstructured) \<times> 'w state" where
  "doGet v gvr namespace name s =
     (case clientGet v gvr namespace name (world s) of
        (r, w) \<Rightarrow> (r, s\<lparr>world := w, calls := calls s @ [GetCall gvr namespace name r]\<rparr>))"

definition doPatch ::
  "'w resourceVerber \<Rightarrow> GroupVersionResource \<Rightarrow> string \<Rightarrow> string \<Rightarrow> PatchType \<Rightarrow> string
   \<Rightarrow> 'w state \<Rightarrow> (error + Unstructured) \<times> 'w state" where
  "doPatch v gvr namespace name pt patchBytes s =
     (case clientPatch v gvr namespace name pt patchBytes (world s) of
        (r, w) \<Rightarrow>
          (r, s\<lparr>world := w, calls := calls s @ [PatchCall gvr namespace name pt patchBytes r]\<rparr>))"


definition doCreate ::
  "'w resourceVerber \<Rightarrow> GroupVersionResource \<Rightarrow> string \<Rightarrow> Unstructured \<Rightarrow> 'w state
   \<Rightarrow> (error + Unstructured) \<times> 'w state" where
  "doCreate v gvr namespace object s =
     (case clientCreate v gvr namespace object (world s) of
        (r, w) \<Rightarrow> (r, s\<lparr>world := w, calls := calls s @ [CreateCall gvr namespace object r]\<rparr>))"

definition doServerGroupsAndResources ::
  "'w resourceVerber \<Rightarrow> 'w state \<Rightarrow> (APIResourceList list \<times> error option) \<times> 'w state" where
  "doServerGroupsAndResources v s =
     (case discoveryServerGroupsAndResources v (world s) of
        (r, w) \<Rightarrow> (r, s\<lparr>world := w, calls := calls s @ [DiscoveryCall r]\<rparr>))"

text \<open>The calls made between an earlier state and a later one.\<close>

definition callsSince :: "'w state \<Rightarrow> 'w state \<Rightarrow> call list" where
  "callsSince s s' = drop (length (calls s)) (calls s')"

subsection \<open>Resolving coordinates\<close>

definition groupVersionResourceFromUnstructured ::
  "library \<Rightarrow> Unstructured \<Rightarrow> GroupVersionResource" where
  "groupVersionResourceFromUnstructured L object =
     (let gvk = objectKind object in
      \<lparr>Group = gvkGroup gvk, Version = gvkVersion gvk,
       Resource = Pluralize L (ToLower L (gvkKind gvk))\<rparr>)"

text \<open>
  The inner loop of \<open>buildGroupVersionResourceCache\<close> over the resources of one group
  version, then the outer loop over the resource lists. The package-level map is updated in
  place, so what was inserted before a parse error stays.
\<close>

fun cacheAPIResources ::
  "library \<Rightarrow> GroupVersion \<Rightarrow> APIResource list \<Rightarrow> (string \<rightharpoonup> GroupVersionResource)
   \<Rightarrow> (string \<rightharpoonup> GroupVersionResource)" where
  "cacheAPIResources L gv [] cache = cache"
| "cacheAPIResources L gv (apiResource # rest) cache =
     (let crdKind = Name apiResource @ ''.'' @ gvGroup gv;
          gvr = \<lparr>Group = gvGroup gv, Version = gvVersion gv, Resource = Name apiResource\<rparr>
      in if CHR ''/'' \<in> set (Name apiResource) then cacheAPIResources L gv rest cache
         else cacheAPIResources L gv rest
                ((cache(ToLower L (Kind apiResource) \<mapsto> gvr))(crdKind \<mapsto> gvr)))"

fun buildGroupVersionResourceCache ::
  "library \<Rightarrow> APIResourceList list \<Rightarrow> (string \<rightharpoonup> GroupVersionResource)
   \<Rightarrow> error option \<times> (string \<rightharpoonup> GroupVersionResource)" where
  "buildGroupVersionResourceCache L [] cache = (None, cache)"
| "buildGroupVersionResourceCache L (resource # rest) cache =
     (case ParseGroupVersion L (GroupVersionString resource) of
        Inl err \<Rightarrow> (Some err, cache)
      | Inr gv \<Rightarrow>
          buildGroupVersionResourceCache L rest
            (cacheAPIResources L gv (APIResources resource) cache))"

definition groupVersionResourceFromKind ::
  "library \<Rightarrow> 'w resourceVerber \<Rightarrow> string \<Rightarrow> 'w state
   \<Rightarrow> (error + GroupVersionResource) \<times> 'w state" where
  "groupVersionResourceFromKind L v kind s =
     (case kindToGroupVersionResource s kind of
        Some gvr \<Rightarrow> (Inr gvr, s)
      | None \<Rightarrow>
          (case doServerGroupsAndResources v s of
             ((resourceList, Some err), s1) \<Rightarrow> (Inl err, s1)
           | ((resourceList, None), s1) \<Rightarrow>
               (case buildGroupVersionResourceCache L resourceList
                       (kindToGroupVersionResource s1) of
                  (Some err, cache) \<Rightarrow> (Inl err, s1\<lparr>kindToGroupVersionResource := cache\<rparr>)
                | (None, cache) \<Rightarrow>
                    (let s2 = s1\<lparr>kindToGroupVersionResource := cache\<rparr> in
                     case kindToGroupVersionResource s2 kind of
                       Some gvr \<Rightarrow> (Inr gvr, s2)
                     | None \<Rightarrow>
                         (Inl (ErrorString (''could not find GVR for kind '' @ kind)), s2)))))"

subsection \<open>Delete, Get, Create\<close>


definition Get ::
  "library \<Rightarrow> 'w resourceVerber \<Rightarrow> string \<Rightarrow> string \<Rightarrow> string \<Rightarrow> 'w state
   \<Rightarrow> (error + Unstructured) \<times> 'w state" where
  "Get L v kind namespace name s =
     (case groupVersionResourceFromKind L v kind s of
        (Inl err, s1) \<Rightarrow> (Inl err, s1)
      | (Inr gvr, s1) \<Rightarrow> doGet v gvr namespace name s1)"

definition Create ::
  "library \<Rightarrow> 'w resourceVerber \<Rightarrow> Unstructured \<Rightarrow> 'w state
   \<Rightarrow> (error + Unstructured) \<times> 'w state" where
  "Create L v object s =
     (let namespace = objectNamespace object;
          gvr = groupVersionResourceFromUnstructured L object
      in doCreate v gvr namespace object s)"

subsection \<open>Update\<close>

text \<open>
  The function that \<open>Update\<close> passes to the retry loop. The caller's object is behind a
  pointer, so it is returned as it stands after the attempt.
\<close>

definition updateAttempt ::
  "library \<Rightarrow> 'w resourceVerber \<Rightarrow> GroupVersionResource \<Rightarrow> string \<Rightarrow> string
   \<Rightarrow> Unstructured \<times> 'w state \<Rightarrow> error option \<times> Unstructured \<times> 'w state" where
  "updateAttempt L v gvr namespace name os =
     (case os of (object, s) \<Rightarrow>
      (case doGet v gvr namespace name s of
         (Inl getErr, s1) \<Rightarrow>
           (Some (ErrorString (''failed to get latest '' @ Resource gvr @ '' version: ''
                                @ errorText getErr)), object, s1)
       | (Inr result, s1) \<Rightarrow>
           (case MarshalJSON L result of
              Inl err \<Rightarrow>
                (Some (ErrorString (''failed to marshal original data: '' @ errorText err)),
                 object, s1)
            | Inr origData \<Rightarrow>
                (let object = SetResourceVersion (resourceVersion result) object in
                 case MarshalJSON L object of
                   Inl err \<Rightarrow>
                     (Some (ErrorString (''failed to marshal modified data: '' @ errorText err)),
                      object, s1)
                 | Inr modifiedData \<Rightarrow>
                     (case CreateThreeWayJSONMergePatch L origData modifiedData origData of
                        Inl err \<Rightarrow>
                          (Some (ErrorString (''failed creating merge patch: '' @ errorText err)),
                           object, s1)
                      | Inr patchBytes \<Rightarrow>
                          (case doPatch v gvr namespace name MergePatchType patchBytes s1 of
                             (Inl updateErr, s2) \<Rightarrow> (Some updateErr, object, s2)
                           | (Inr updated, s2) \<Rightarrow> (None, object, s2)))))))"

text \<open>
  Modelled from the spec: \<open>retry.RetryOnConflict\<close> and \<open>retry.DefaultRetry\<close> belong to the
  client-go library and are not among the sources. The specification calls them a bounded
  retry loop keyed on a conflict signal, with the default policy; any other error aborts.
  The loop below runs the function at most \<open>steps\<close> times: it stops at the first success
  and at the first error that is not a conflict, and when the steps are used up it returns
  the last conflict. The library's default policy has five steps. The pauses between the
  attempts are not modelled.
\<close>

primrec retryLoop ::
  "nat \<Rightarrow> ('s \<Rightarrow> error option \<times> 's) \<Rightarrow> error option \<Rightarrow> 's \<Rightarrow> error option \<times> 's" where
  "retryLoop 0 fn lastErr st = (lastErr, st)"
| "retryLoop (Suc steps) fn lastErr st =
     (case fn st of
        (None, st') \<Rightarrow> (None, st')
      | (Some err, st') \<Rightarrow>
          if IsConflict err then retryLoop steps fn (Some err) st' else (Some err, st'))"

definition DefaultRetry :: nat where
  "DefaultRetry = 5"

definition RetryOnConflict ::
  "nat \<Rightarrow> ('s \<Rightarrow> error option \<times> 's) \<Rightarrow> 's \<Rightarrow> error option \<times> 's" where
  "RetryOnConflict steps fn st = retryLoop steps fn None st"

definition Update ::
  "library \<Rightarrow> 'w resourceVerber \<Rightarrow> Unstructured \<Rightarrow> 'w state
   \<Rightarrow> error option \<times> Unstructured \<times> 'w state" where
  "Update L v object s =
     (let name = objectName object;
          namespace = objectNamespace object;
          gvr = groupVersionResourceFromUnstructured L object
      in RetryOnConflict DefaultRetry (updateAttempt L v gvr namespace name) (object, s))"

subsection \<open>What the specification says of the verber\<close>

text \<open>
  The three-way merge patch of the specification: the server copy is both the original
  and the current base, the desired object is the modified document. \<open>None\<close> when a
  document cannot be serialised or the patch cannot be built.
\<close>

definition threeWayMergePatch :: "library \<Rightarrow> Unstructured \<Rightarrow> Unstructured \<Rightarrow> string option" where
  "threeWayMergePatch L serverCopy desired =
     (case MarshalJSON L serverCopy of
        Inl err \<Rightarrow> None
      | Inr original \<Rightarrow>
          (case MarshalJSON L desired of
             Inl err \<Rightarrow> None
           | Inr modified \<Rightarrow>
               (case CreateThreeWayJSONMergePatch L original modified original of
                  Inl err \<Rightarrow> None
                | Inr patchBytes \<Rightarrow> Some patchBytes)))"

text \<open>
  The calls of one attempt of \<open>Update\<close> on an object, the error it returns and the object
  it leaves: the fetch fails; the fetched copy cannot be serialised; the patch cannot be
  built; the patch is sent.
\<close>

inductive attemptTrace ::
  "library \<Rightarrow> GroupVersionResource \<Rightarrow> string \<Rightarrow> string \<Rightarrow> Unstructured \<Rightarrow> call list
   \<Rightarrow> error option \<Rightarrow> Unstructured \<Rightarrow> bool"
  for L gvr namespace name object where
  fetchFailed:
    "attemptTrace L gvr namespace name object
       [GetCall gvr namespace name (Inl getErr)]
       (Some (ErrorString (''failed to get latest '' @ Resource gvr @ '' version: ''
                            @ errorText getErr)))
       object"
| originalNotSerialised:
    "MarshalJSON L result = Inl err \<Longrightarrow>
     attemptTrace L gvr namespace name object
       [GetCall gvr namespace name (Inr result)]
       (Some (ErrorString (''failed to marshal original data: '' @ errorText err)))
       object"
| patchNotBuilt:
    "MarshalJSON L result = Inr origData \<Longrightarrow>
     threeWayMergePatch L result (SetResourceVersion (resourceVersion result) object) = None \<Longrightarrow>
     attemptTrace L gvr namespace name object
       [GetCall gvr namespace name (Inr result)]
       (Some (ErrorString message))
       (SetResourceVersion (resourceVersion result) object)"
| patchSent:
    "MarshalJSON L result = Inr origData \<Longrightarrow>
     threeWayMergePatch L result (SetResourceVersion (resourceVersion result) object)
       = Some patchBytes \<Longrightarrow>
     attemptTrace L gvr namespace name object
       [GetCall gvr namespace name (Inr result),
        PatchCall gvr namespace name MergePatchType patchBytes answer]
       (case answer of Inl updateErr \<Rightarrow> Some updateErr | Inr updated \<Rightarrow> None)
       (SetResourceVersion (resourceVersion result) object)"

text \<open>
  The calls of a retry loop of at most \<open>steps\<close> attempts: an attempt that does not end in
  a conflict is the last one; one that does is the last one only when no step is left.
\<close>

inductive updateTrace ::
  "library \<Rightarrow> GroupVersionResource \<Rightarrow> string \<Rightarrow> string \<Rightarrow> nat \<Rightarrow> Unstructured \<Rightarrow> call list
   \<Rightarrow> error option \<Rightarrow> Unstructured \<Rightarrow> bool"
  for L gvr namespace name where
  finished:
    "attemptTrace L gvr namespace name object cs r object' \<Longrightarrow>
     (\<forall>err. r = Some err \<longrightarrow> \<not> IsConflict err) \<Longrightarrow>
     updateTrace L gvr namespace name (Suc steps) object cs r object'"
| exhausted:
    "attemptTrace L gvr namespace name object cs (Some err) object' \<Longrightarrow>
     IsConflict err \<Longrightarrow>
     updateTrace L gvr namespace name (Suc 0) object cs (Some err) object'"
| retried:
    "attemptTrace L gvr namespace name object cs (Some err) object' \<Longrightarrow>
     IsConflict err \<Longrightarrow>
     updateTrace L gvr namespace name (Suc steps) object' cs' r object'' \<Longrightarrow>
     updateTrace L gvr namespace name (Suc (Suc steps)) object (cs @ cs') r object''"

text \<open>
  The calls of \<open>Update\<close>, classified: a fetch, a write, a write that failed with a
  conflict, and a call after which the specification lets \<open>Update\<close> make no further
  call because it aborts: a failed fetch, a fetched copy from which no patch can be
  built for the object, and a write that failed with another error than a conflict.
\<close>

fun isFetch :: "call \<Rightarrow> bool" where
  "isFetch (GetCall gvr namespace name answer) = True"
| "isFetch c = False"

fun isWrite :: "call \<Rightarrow> bool" where
  "isWrite (PatchCall gvr namespace name pt patchBytes answer) = True"
| "isWrite c = False"

fun writeConflict :: "call \<Rightarrow> bool" where
  "writeConflict (PatchCall gvr namespace name pt patchBytes (Inl err)) = IsConflict err"
| "writeConflict c = False"

fun writeSucceeded :: "call \<Rightarrow> bool" where
  "writeSucceeded (PatchCall gvr namespace name pt patchBytes (Inr updated)) = True"
| "writeSucceeded c = False"

fun abortsUpdate :: "library \<Rightarrow> Unstructured \<Rightarrow> call \<Rightarrow> bool" where
  "abortsUpdate L object (GetCall gvr namespace name (Inl getErr)) = True"
| "abortsUpdate L object (GetCall gvr namespace name (Inr result)) =
     (threeWayMergePatch L result (SetResourceVersion (resourceVersion result) object) = None)"
| "abortsUpdate L object (PatchCall gvr namespace name pt patchBytes (Inl err)) =
     (\<not> IsConflict err)"
| "abortsUpdate L object c = False"

text \<open>
  A fetch and the write that follows it are as the specification wants them when the fetch
  answered with a server copy and the write is a merge patch, to the same coordinate,
  namespace and name, whose bytes are the three-way merge patch from that copy to the
  caller's object carrying the copy's resource version.
\<close>

fun mergePatchWrite ::
  "library \<Rightarrow> GroupVersionResource \<Rightarrow> string \<Rightarrow> string \<Rightarrow> Unstructured \<Rightarrow> call \<Rightarrow> call \<Rightarrow> bool"
  where
  "mergePatchWrite L gvr namespace name object
       (GetCall gvr1 namespace1 name1 (Inr serverCopy))
       (PatchCall gvr2 namespace2 name2 pt patchBytes answer) =
     (gvr1 = gvr \<and> namespace1 = namespace \<and> name1 = name \<and>
      gvr2 = gvr \<and> namespace2 = namespace \<and> name2 = name \<and>
      pt = MergePatchType \<and>
      threeWayMergePatch L serverCopy
        (SetResourceVersion (resourceVersion serverCopy) object) = Some patchBytes)"
| "mergePatchWrite L gvr namespace name object c c' = False"

text \<open>
  The server copies that were fetched and could be serialised, in the order of the calls:
  these are the attempts that reached \<open>SetResourceVersion\<close>.
\<close>

fun serialisedFetches :: "library \<Rightarrow> call list \<Rightarrow> Unstructured list" where
  "serialisedFetches L [] = []"
| "serialisedFetches L (GetCall gvr namespace name (Inr result) # cs) =
     (case MarshalJSON L result of
        Inl err \<Rightarrow> serialisedFetches L cs
      | Inr origData \<Rightarrow> result # serialisedFetches L cs)"
| "serialisedFetches L (c # cs) = serialisedFetches L cs"

text \<open>
  What the specification says of a cache rebuild: a resource type whose name has no slash
  gives two entries for its coordinate, one under its lower-cased kind and one under
  \<open>resource-name.group\<close>; a sub-resource gives none. The entries of a catalog are those of
  its resource types in the order of discovery, and inserting them overwrites.
\<close>

definition coordinate :: "GroupVersion \<Rightarrow> APIResource \<Rightarrow> GroupVersionResource" where
  "coordinate gv apiResource =
     \<lparr>Group = gvGroup gv, Version = gvVersion gv, Resource = Name apiResource\<rparr>"

definition cacheEntries ::
  "library \<Rightarrow> GroupVersion \<Rightarrow> APIResource \<Rightarrow> (string \<times> GroupVersionResource) list" where
  "cacheEntries L gv apiResource =
     (if CHR ''/'' \<in> set (Name apiResource) then []
      else [(ToLower L (Kind apiResource), coordinate gv apiResource),
            (Name apiResource @ ''.'' @ gvGroup gv, coordinate gv apiResource)])"

fun catalogEntries ::
  "library \<Rightarrow> APIResourceList list \<Rightarrow> (string \<times> GroupVersionResource) list" where
  "catalogEntries L [] = []"
| "catalogEntries L (resource # rest) =
     (case ParseGroupVersion L (GroupVersionString resource) of
        Inl err \<Rightarrow> catalogEntries L rest
      | Inr gv \<Rightarrow>
          concat (map (cacheEntries L gv) (APIResources resource)) @ catalogEntries L rest)"

definition insertEntries ::
  "(string \<times> GroupVersionResource) list \<Rightarrow> (string \<rightharpoonup> GroupVersionResource)
   \<Rightarrow> (string \<rightharpoonup> GroupVersionResource)" where
  "insertEntries entries cache = foldl (\<lambda>c (k, gvr). c(k \<mapsto> gvr)) cache entries"



text \<open>The coordinate a call is addressed to; the catalog call has none.\<close>

fun callCoordinate :: "call \<Rightarrow> GroupVersionResource option" where
  "callCoordinate (GetCall gvr namespace name answer) = Some gvr"
| "callCoordinate (PatchCall gvr namespace name pt patchBytes answer) = Some gvr"
| "callCoordinate (DeleteCall gvr namespace name opts answer) = Some gvr"
| "callCoordinate (CreateCall gvr namespace object answer) = Some gvr"
| "callCoordinate (DiscoveryCall answer) = None"

text \<open>
  Three notions for the proofs about the calls of \<open>Update\<close>: what holds of a call and the
  call that follows it, what holds of the last call and the returned error when at most
  \<open>n\<close> attempts were allowed, and the object that a list of fetched copies leaves.
\<close>

definition nextCall ::
  "library \<Rightarrow> GroupVersionResource \<Rightarrow> string \<Rightarrow> string \<Rightarrow> Unstructured \<Rightarrow> call \<Rightarrow> call \<Rightarrow> bool"
  where
  "nextCall L gvr ns name object c c' =
     ((isWrite c' \<longrightarrow> mergePatchWrite L gvr ns name object c c') \<and>
      (isFetch c' \<longrightarrow> writeConflict c) \<and>
      \<not> abortsUpdate L object c \<and> \<not> writeSucceeded c \<and>
      (isFetch c \<longrightarrow> isWrite c'))"

definition lastCall :: "library \<Rightarrow> Unstructured \<Rightarrow> nat \<Rightarrow> call list \<Rightarrow> error option \<Rightarrow> bool" where
  "lastCall L object n cs r =
     ((abortsUpdate L object (last cs) \<longrightarrow> (\<exists>err. r = Some err \<and> \<not> IsConflict err)) \<and>
      (writeSucceeded (last cs) \<longleftrightarrow> r = None) \<and>
      (writeConflict (last cs) \<longrightarrow>
         (\<exists>err. r = Some err \<and> IsConflict err) \<and> length (filter isFetch cs) = n) \<and>
      (abortsUpdate L object (last cs) \<or> writeSucceeded (last cs) \<or> writeConflict (last cs)))"

definition withLastVersion :: "Unstructured \<Rightarrow> Unstructured list \<Rightarrow> Unstructured" where
  "withLastVersion object rs =
     (if rs = [] then object else SetResourceVersion (resourceVersion (last rs)) object)"

subsection \<open>Package client: the client registry\<close>

text \<open>
  Of \<open>rest.Config\<close>, the fields the package reads or writes; \<open>Insecure\<close>, \<open>CAData\<close>,
  \<open>CertData\<close> and \<open>KeyData\<close> are those of its \<open>TLSClientConfig\<close>. \<open>QPS\<close> is a \<open>float32\<close> in
  the source; it is only ever assigned the constant \<open>DefaultQPS\<close>, which is a parameter here,
  and is kept as an integer.
\<close>

record rest_Config =
  Host :: string
  UserAgent :: string
  QPS :: int
  Burst :: int
  Insecure :: bool
  CAData :: string
  CertData :: string
  KeyData :: string

record api_Cluster =
  Server :: string
  InsecureSkipTLSVerify :: bool
  CertificateAuthorityData :: string

record api_AuthInfo =
  ClientCertificateData :: string
  ClientKeyData :: string

record api_Context =
  Cluster :: string
  AuthInfo :: string

record clientcmdapi_Config =
  Clusters :: "string \<rightharpoonup> api_Cluster"
  AuthInfos :: "string \<rightharpoonup> api_AuthInfo"
  Contexts :: "string \<rightharpoonup> api_Context"
  CurrentContext :: string

text \<open>
  What the package takes from its platform: the ambient in-cluster configuration
  (\<open>rest.InClusterConfig\<close>), the two loaders of a credential file with an optional context
  (\<open>LoadRestConfig\<close> and \<open>LoadAPIConfig\<close>, which read the file through the clientcmd
  library), the construction of a client (\<open>kubeclient.NewForConfig\<close>) and the three
  constants \<open>DefaultQPS\<close>, \<open>DefaultBurst\<close> and \<open>DefaultUserAgent\<close>, which are not among the
  sources.
\<close>

record 'c platform =
  InClusterConfig :: "error + rest_Config"
  LoadRestConfig :: "string \<Rightarrow> string \<Rightarrow> error + rest_Config"
  LoadAPIConfig :: "string \<Rightarrow> string \<Rightarrow> error + clientcmdapi_Config"
  NewForConfig :: "rest_Config \<Rightarrow> error + 'c"
  DefaultQPS :: int
  DefaultBurst :: int
  DefaultUserAgent :: string

text \<open>
  The package-level variables of the registry that the modelled functions use; \<open>None\<close> is
  a nil pointer. \<open>karmadaRestConfig\<close> and \<open>karmadaMemberConfig\<close> point to two different
  objects, since \<open>InitKarmadaConfig\<close>, the only function that assigns them, loads each of
  them afresh; so each is held by value. \<open>memberClients\<close> is the \<open>sync.Map\<close> from cluster
  names to clients. The list \<open>built\<close> records the configurations \<open>NewForConfig\<close> was called
  with by the member-cluster getter; nothing reads it.
\<close>

record 'c globals =
  kubernetesRestConfig :: "rest_Config option"
  kubernetesAPIConfig :: "clientcmdapi_Config option"
  karmadaRestConfig :: "rest_Config option"
  karmadaAPIConfig :: "clientcmdapi_Config option"
  karmadaMemberConfig :: "rest_Config option"
  inClusterClientForMemberAPIServer :: "'c option"
  memberClients :: "string \<rightharpoonup> 'c"
  built :: "rest_Config list"

text \<open>How a call ends: it returns, the process exits (\<open>os.Exit\<close>), or it panics.\<close>

datatype 'a outcome = Returned 'a | Exited int | Panicked

record configBuilder =
  kubeconfigPath :: string
  kubeContext :: string
  insecure :: bool
  userAgent :: string

type_synonym Option = "configBuilder \<Rightarrow> configBuilder"

definition WithUserAgent :: "string \<Rightarrow> Option" where
  "WithUserAgent agent c = c\<lparr>userAgent := agent\<rparr>"

definition WithKubeconfig :: "string \<Rightarrow> Option" where
  "WithKubeconfig path c = c\<lparr>kubeconfigPath := path\<rparr>"

definition WithKubeContext :: "string \<Rightarrow> Option" where
  "WithKubeContext kubecontext c = c\<lparr>kubeContext := kubecontext\<rparr>"

definition WithInsecureTLSSkipVerify :: "bool \<Rightarrow> Option" where
  "WithInsecureTLSSkipVerify b c = c\<lparr>insecure := b\<rparr>"

definition newConfigBuilder :: "Option list \<Rightarrow> configBuilder" where
  "newConfigBuilder options =
     foldl (\<lambda>builder opt. opt builder)
       \<lparr>kubeconfigPath = [], kubeContext = [], insecure = False, userAgent = []\<rparr> options"

definition buildRestConfig :: "'c platform \<Rightarrow> configBuilder \<Rightarrow> error + rest_Config" where
  "buildRestConfig P b =
     (if length (kubeconfigPath b) = 0 then Inl (ErrorString ''must specify kubeconfig'')
      else (case LoadRestConfig P (kubeconfigPath b) (kubeContext b) of
              Inl err \<Rightarrow> Inl err
            | Inr restConfig \<Rightarrow>
                Inr (restConfig\<lparr>QPS := DefaultQPS P, Burst := DefaultBurst P,
                                 UserAgent := DefaultUserAgent P @ ''/'' @ userAgent b,
                                 Insecure := insecure b\<rparr>)))"

definition buildAPIConfig :: "'c platform \<Rightarrow> configBuilder \<Rightarrow> error + clientcmdapi_Config" where
  "buildAPIConfig P b =
     (if length (kubeconfigPath b) = 0 then Inl (ErrorString ''must specify kubeconfig'')
      else (case LoadAPIConfig P (kubeconfigPath b) (kubeContext b) of
              Inl err \<Rightarrow> Inl err
            | Inr apiConfig \<Rightarrow> Inr apiConfig))"

definition ConvertRestConfigToAPIConfig :: "rest_Config \<Rightarrow> clientcmdapi_Config" where
  "ConvertRestConfigToAPIConfig restConfig =
     \<lparr>Clusters = [''clusterName'' \<mapsto>
         \<lparr>Server = Host restConfig, InsecureSkipTLSVerify = Insecure restConfig,
          CertificateAuthorityData = CAData restConfig\<rparr>],
      AuthInfos = [''authInfoName'' \<mapsto>
         \<lparr>ClientCertificateData = CertData restConfig, ClientKeyData = KeyData restConfig\<rparr>],
      Contexts = [''contextName'' \<mapsto> \<lparr>Cluster = ''clusterName'', AuthInfo = ''authInfoName''\<rparr>],
      CurrentContext = ''contextName''\<rparr>"

definition InitKubeConfig :: "'c platform \<Rightarrow> Option list \<Rightarrow> 'c globals \<Rightarrow> 'c globals outcome" where
  "InitKubeConfig P options g =
     (let builder = newConfigBuilder options in
      case InClusterConfig P of
        Inr restConfig \<Rightarrow>
          (let restConfig = restConfig\<lparr>UserAgent := DefaultUserAgent P @ ''/'' @ userAgent builder,
                                        Insecure := insecure builder\<rparr>;
               apiConfig = ConvertRestConfigToAPIConfig restConfig
           in Returned (g\<lparr>kubernetesRestConfig := Some restConfig,
                           kubernetesAPIConfig := Some apiConfig\<rparr>))
      | Inl err \<Rightarrow>
          (case buildRestConfig P builder of
             Inl err \<Rightarrow> Exited 1
           | Inr restConfig \<Rightarrow>
               (case buildAPIConfig P builder of
                  Inl err \<Rightarrow> Exited 1
                | Inr apiConfig \<Rightarrow>
                    Returned (g\<lparr>kubernetesRestConfig := Some restConfig,
                                 kubernetesAPIConfig := Some apiConfig\<rparr>))))"

definition InitKarmadaConfig :: "'c platform \<Rightarrow> Option list \<Rightarrow> 'c globals \<Rightarrow> 'c globals outcome" where
  "InitKarmadaConfig P options g =
     (let builder = newConfigBuilder options in
      case buildRestConfig P builder of
        Inl err \<Rightarrow> Exited 1
      | Inr restConfig \<Rightarrow>
          (case buildAPIConfig P builder of
             Inl err \<Rightarrow> Exited 1
           | Inr apiConfig \<Rightarrow>
               (case buildRestConfig P builder of
                  Inl err \<Rightarrow> Exited 1
                | Inr memberConfig \<Rightarrow>
                    Returned (g\<lparr>karmadaRestConfig := Some restConfig,
                                 karmadaAPIConfig := Some apiConfig,
                                 karmadaMemberConfig := Some memberConfig\<rparr>))))"







text \<open>
  The states the getter is meant for: the three Karmada configurations are set, the member
  configuration being the one first loaded but for its host.
\<close>

definition karmadaReady ::
  "rest_Config \<Rightarrow> clientcmdapi_Config \<Rightarrow> rest_Config \<Rightarrow> 'c globals \<Rightarrow> bool" where
  "karmadaReady restConfig apiConfig memberConfig g =
     (karmadaRestConfig g = Some restConfig \<and> karmadaAPIConfig g = Some apiConfig \<and>
      (case karmadaMemberConfig g of
         None \<Rightarrow> False
       | Some m \<Rightarrow> m\<lparr>Host := Host memberConfig\<rparr> = memberConfig))"

subsection \<open>A library and a cluster for the examples\<close>

text \<open>
  An instance of the library functions: lower-casing of ASCII letters, the plural in
  \<open>s\<close>, a serialisation that shows name, resource version and document, a patch that
  shows the original and the modified document, and a group-version parser that accepts
  at most one slash.
\<close>

fun asciiToLower :: "char \<Rightarrow> char" where
  "asciiToLower (Char b0 b1 b2 b3 b4 b5 b6 b7) =
     (let n = (of_char (Char b0 b1 b2 b3 b4 b5 b6 b7) :: nat)
      in if 65 \<le> n \<and> n \<le> 90 then Char b0 b1 b2 b3 b4 True b6 b7
         else Char b0 b1 b2 b3 b4 b5 b6 b7)"

definition exampleParseGroupVersion :: "string \<Rightarrow> error + GroupVersion" where
  "exampleParseGroupVersion gv =
     (if gv = [] \<or> gv = ''/'' then Inr \<lparr>gvGroup = [], gvVersion = []\<rparr>
      else if count_list gv CHR ''/'' = 0 then Inr \<lparr>gvGroup = [], gvVersion = gv\<rparr>
      else if count_list gv CHR ''/'' = 1 then
        Inr \<lparr>gvGroup = takeWhile (\<lambda>c. c \<noteq> CHR ''/'') gv,
             gvVersion = tl (dropWhile (\<lambda>c. c \<noteq> CHR ''/'') gv)\<rparr>
      else Inl (ErrorString (''unexpected GroupVersion string: '' @ gv)))"

definition exampleLibrary :: library where
  "exampleLibrary =
     \<lparr>ToLower = map asciiToLower,
      Pluralize = (\<lambda>s. s @ ''s''),
      MarshalJSON = (\<lambda>object.
        Inr (objectName object @ '':'' @ resourceVersion object @ '':'' @ document object)),
      CreateThreeWayJSONMergePatch = (\<lambda>original modified current.
        Inr (original @ ''>'' @ modified)),
      ParseGroupVersion = exampleParseGroupVersion\<rparr>"

text \<open>
  The state of the example cluster is the number of writes it has seen. It holds one
  deployment, whose resource version is 7 before the first write and 8 after it; its
  first write fails with a conflict. Its catalog has pods with a sub-resource, and
  deployments.
\<close>

definition serverCopy :: "nat \<Rightarrow> Unstructured" where
  "serverCopy w =
     \<lparr>objectKind = \<lparr>gvkGroup = ''apps'', gvkVersion = ''v1'', gvkKind = ''Deployment''\<rparr>,
      objectName = ''web'', objectNamespace = ''prod'',
      resourceVersion = (if w = 0 then ''7'' else ''8''),
      document = ''replicas=1''\<rparr>"

definition exampleCatalog :: "APIResourceList list" where
  "exampleCatalog =
     [\<lparr>GroupVersionString = ''v1'',
       APIResources = [\<lparr>Name = ''pods'', Kind = ''Pod''\<rparr>,
                       \<lparr>Name = ''pods/status'', Kind = ''Pod''\<rparr>]\<rparr>,
      \<lparr>GroupVersionString = ''apps/v1'',
       APIResources = [\<lparr>Name = ''deployments'', Kind = ''Deployment''\<rparr>]\<rparr>]"

definition exampleVerber :: "nat resourceVerber" where
  "exampleVerber =
     \<lparr>clientGet = (\<lambda>gvr namespace name w. (Inr (serverCopy w), w)),
      clientPatch = (\<lambda>gvr namespace name pt patchBytes w.
        (if w = 0 then Inl (StatusError StatusReasonConflict ''the object has been modified'')
         else Inr (serverCopy (Suc w)), Suc w)),
      clientDelete = (\<lambda>gvr namespace name opts w. (None, w)),
      clientCreate = (\<lambda>gvr namespace object w. (Inr object, w)),
      discoveryServerGroupsAndResources = (\<lambda>w. ((exampleCatalog, None), w))\<rparr>"

text \<open>
  A cluster whose catalog call reports an error together with the lists it could read.
\<close>

definition degradedVerber :: "nat resourceVerber" where
  "degradedVerber =
     exampleVerber\<lparr>discoveryServerGroupsAndResources :=
       (\<lambda>w. ((exampleCatalog,
              Some (ErrorString ''unable to retrieve the complete list of server APIs'')), w))\<rparr>"

definition desired :: Unstructured where
  "desired =
     \<lparr>objectKind = \<lparr>gvkGroup = ''apps'', gvkVersion = ''v1'', gvkKind = ''Deployment''\<rparr>,
      objectName = ''web'', objectNamespace = ''prod'',
      resourceVersion = ''5'',
      document = ''replicas=3''\<rparr>"

definition deployments :: GroupVersionResource where
  "deployments = \<lparr>Group = ''apps'', Version = ''v1'', Resource = ''deployments''\<rparr>"

definition initialState :: "nat state" where
  "initialState = \<lparr>kindToGroupVersionResource = Map.empty, world = 0, calls = []\<rparr>"

text \<open>
  The same object carrying the version the cluster holds once its first write is past,
  and the state in which that write is past.
\<close>

definition desiredUpToDate :: Unstructured where
  "desiredUpToDate = desired\<lparr>resourceVersion := ''8''\<rparr>"

definition settledState :: "nat state" where
  "settledState = \<lparr>kindToGroupVersionResource = Map.empty, world = 1, calls = []\<rparr>"

text \<open>The state of the example cluster after the update of \<open>desired\<close>.\<close>

definition updatedState :: "nat state" where
  "updatedState =
     \<lparr>kindToGroupVersionResource = Map.empty, world = 2,
      calls =
        [GetCall deployments ''prod'' ''web'' (Inr (serverCopy 0)),
         PatchCall deployments ''prod'' ''web'' MergePatchType
           ''web:7:replicas=1>web:7:replicas=3''
           (Inl (StatusError StatusReasonConflict ''the object has been modified'')),
         GetCall deployments ''prod'' ''web'' (Inr (serverCopy 1)),
         PatchCall deployments ''prod'' ''web'' MergePatchType
           ''web:8:replicas=1>web:8:replicas=3'' (Inr (serverCopy 2))]\<rparr>"

text \<open>A cluster whose fetch is answered with a conflict status.\<close>

definition busyVerber :: "nat resourceVerber" where
  "busyVerber =
     exampleVerber\<lparr>clientGet :=
       (\<lambda>gvr namespace name w. (Inl (StatusError StatusReasonConflict ''busy''), w))\<rparr>"

text \<open>The state of the example cluster after its catalog has been read into the cache.\<close>

definition resolvedState :: "nat state" where
  "resolvedState =
     \<lparr>kindToGroupVersionResource =
        insertEntries (catalogEntries exampleLibrary exampleCatalog) Map.empty,
      world = 0,
      calls = [DiscoveryCall (exampleCatalog, None)]\<rparr>"



subsection \<open>Two platforms for the examples\<close>

text \<open>
  A platform inside a cluster, with an ambient configuration and one credential file, and
  the same platform outside of a cluster. A client is represented by the host it was built
  for.
\<close>

definition ambientConfig :: rest_Config where
  "ambientConfig =
     \<lparr>Host = ''https://10.96.0.1:443'', UserAgent = [], QPS = 0, Burst = 0, Insecure = False,
      CAData = ''ca-of-the-host-cluster'', CertData = [], KeyData = []\<rparr>"

definition fileConfig :: rest_Config where
  "fileConfig =
     \<lparr>Host = ''https://karmada:5443'', UserAgent = [], QPS = 0, Burst = 0, Insecure = False,
      CAData = ''ca-of-karmada'', CertData = ''cert'', KeyData = ''key''\<rparr>"

definition fileAPIConfig :: clientcmdapi_Config where
  "fileAPIConfig =
     \<lparr>Clusters = [''karmada'' \<mapsto>
         \<lparr>Server = ''https://karmada:5443'', InsecureSkipTLSVerify = False,
          CertificateAuthorityData = ''ca-of-karmada''\<rparr>],
      AuthInfos = [''admin'' \<mapsto> \<lparr>ClientCertificateData = ''cert'', ClientKeyData = ''key''\<rparr>],
      Contexts = [''karmada-apiserver'' \<mapsto> \<lparr>Cluster = ''karmada'', AuthInfo = ''admin''\<rparr>],
      CurrentContext = ''karmada-apiserver''\<rparr>"

definition inClusterPlatform :: "string platform" where
  "inClusterPlatform =
     \<lparr>InClusterConfig = Inr ambientConfig,
      LoadRestConfig = (\<lambda>path context.
        if path = ''/etc/karmada.config'' then Inr fileConfig
        else Inl (ErrorString ''no such file'')),
      LoadAPIConfig = (\<lambda>path context.
        if path = ''/etc/karmada.config'' then Inr fileAPIConfig
        else Inl (ErrorString ''no such file'')),
      NewForConfig = (\<lambda>config. Inr (Host config)),
      DefaultQPS = 1000, DefaultBurst = 2000, DefaultUserAgent = ''dashboard''\<rparr>"

definition outOfClusterPlatform :: "string platform" where
  "outOfClusterPlatform =
     inClusterPlatform\<lparr>InClusterConfig :=
       Inl (ErrorString ''unable to load in-cluster configuration'')\<rparr>"

definition noGlobals :: "string globals" where
  "noGlobals =
     \<lparr>kubernetesRestConfig = None, kubernetesAPIConfig = None, karmadaRestConfig = None,
      karmadaAPIConfig = None, karmadaMemberConfig = None,
      inClusterClientForMemberAPIServer = None, memberClients = Map.empty, built = []\<rparr>"

definition karmadaConfig :: rest_Config where
  "karmadaConfig =
     fileConfig\<lparr>QPS := 1000, Burst := 2000, UserAgent := ''dashboard/api'', Insecure := True\<rparr>"

definition karmadaGlobals :: "string globals" where
  "karmadaGlobals =
     noGlobals\<lparr>karmadaRestConfig := Some karmadaConfig, karmadaAPIConfig := Some fileAPIConfig,
               karmadaMemberConfig := Some karmadaConfig\<rparr>"





section \<open>Query construction\<close>

declare sortLoop.simps [simp del] filterLoop.simps [simp del]

lemma upt_div2_step:
  assumes "2 * j + 1 < n"
  shows "[j..<n div 2] = j # [Suc j..<n div 2]"
proof -
  from assms have "j < n div 2" by arith
  then show ?thesis by (simp add: upt_conv_Cons)
qed

lemma filterLoop_eq:
  "even (length raw) \<Longrightarrow>
   filterLoop raw (2 * j) acc = acc @ map (filterPair raw) [j..<length raw div 2]"
proof (induction raw "2 * j" acc arbitrary: j rule: filterLoop.induct)
  case (1 raw acc)
  show ?case
  proof (cases "2 * j + 1 < length raw")
    case True
    have "filterLoop raw (2 * j) acc = filterLoop raw (2 * Suc j)
            (acc @ [\<lparr>FilterProperty = raw ! (2 * j), Value = StdComparableString (raw ! (2 * j + 1))\<rparr>])"
      using True by (subst filterLoop.simps) simp
    also have "\<dots> = (acc @ [filterPair raw j]) @ map (filterPair raw) [Suc j..<length raw div 2]"
      using "1.hyps"[of "Suc j"] True "1.prems" by (simp add: filterPair_def)
    finally show ?thesis using upt_div2_step[OF True] by simp
  next
    case False
    then have "\<not> j < length raw div 2" using "1.prems" by presburger
    then show ?thesis using False by (subst filterLoop.simps) simp
  qed
qed

lemma sortLoop_eq:
  "even (length raw) \<Longrightarrow>
   sortLoop raw (2 * j) acc =
     (if \<forall>k. j \<le> k \<and> k < length raw div 2 \<longrightarrow> raw ! (2 * k) = ''a'' \<or> raw ! (2 * k) = ''d''
      then Some (acc @ map (sortPair raw) [j..<length raw div 2]) else None)"
proof (induction raw "2 * j" acc arbitrary: j rule: sortLoop.induct)
  case (1 raw acc)
  let ?ok = "\<lambda>j. \<forall>k. j \<le> k \<and> k < length raw div 2 \<longrightarrow> raw ! (2 * k) = ''a'' \<or> raw ! (2 * k) = ''d''"
  show ?case
  proof (cases "2 * j + 1 < length raw")
    case True
    then have jlt: "j < length raw div 2" by arith
    have okstep: "?ok j \<longleftrightarrow> (raw ! (2 * j) = ''a'' \<or> raw ! (2 * j) = ''d'') \<and> ?ok (Suc j)"
      using jlt by (metis Suc_leD Suc_leI le_neq_implies_less order_refl)
    consider (a) "raw ! (2 * j) = ''a''" | (d) "raw ! (2 * j) = ''d''" "raw ! (2 * j) \<noteq> ''a''"
      | (bad) "raw ! (2 * j) \<noteq> ''a''" "raw ! (2 * j) \<noteq> ''d''" by blast
    then show ?thesis
    proof cases
      case a
      have "sortLoop raw (2 * j) acc = sortLoop raw (2 * Suc j)
              (acc @ [\<lparr>Property = raw ! (2 * j + 1), Ascending = True\<rparr>])"
        using True a by (subst sortLoop.simps) simp
      also have "\<dots> = (if ?ok (Suc j) then Some ((acc @ [sortPair raw j]) @ map (sortPair raw) [Suc j..<length raw div 2]) else None)"
        using "1.hyps"(1)[of "raw ! (2 * j)" "Suc j"] True a "1.prems" by (simp add: sortPair_def)
      finally show ?thesis using upt_div2_step[OF True] okstep a by simp
    next
      case d
      have "sortLoop raw (2 * j) acc = sortLoop raw (2 * Suc j)
              (acc @ [\<lparr>Property = raw ! (2 * j + 1), Ascending = False\<rparr>])"
        using True d by (subst sortLoop.simps) simp
      also have "\<dots> = (if ?ok (Suc j) then Some ((acc @ [sortPair raw j]) @ map (sortPair raw) [Suc j..<length raw div 2]) else None)"
        using "1.hyps"(2)[of "raw ! (2 * j)" "Suc j"] True d "1.prems" by (simp add: sortPair_def)
      finally show ?thesis using upt_div2_step[OF True] okstep d by simp
    next
      case bad
      have "sortLoop raw (2 * j) acc = None"
        using True bad by (subst sortLoop.simps) simp
      then show ?thesis using okstep bad by simp
    qed
  next
    case False
    then have "\<not> j < length raw div 2" using "1.prems" by presburger
    then show ?thesis using False by (subst sortLoop.simps) simp
  qed
qed

lemma validFlags_iff:
  "validFlags raw \<longleftrightarrow> (\<forall>k. 0 \<le> k \<and> k < length raw div 2 \<longrightarrow> raw ! (2 * k) = ''a'' \<or> raw ! (2 * k) = ''d'')"
  if "even (length raw)"
proof
  assume v: "validFlags raw"
  show "\<forall>k. 0 \<le> k \<and> k < length raw div 2 \<longrightarrow> raw ! (2 * k) = ''a'' \<or> raw ! (2 * k) = ''d''"
  proof (intro allI impI)
    fix k assume "0 \<le> k \<and> k < length raw div 2"
    then have "2 * k < length raw" by arith
    then show "raw ! (2 * k) = ''a'' \<or> raw ! (2 * k) = ''d''"
      using v unfolding validFlags_def by simp
  qed
next
  assume h: "\<forall>k. 0 \<le> k \<and> k < length raw div 2 \<longrightarrow> raw ! (2 * k) = ''a'' \<or> raw ! (2 * k) = ''d''"
  show "validFlags raw" unfolding validFlags_def
  proof (intro ballI impI)
    fix i assume "i \<in> set [0..<length raw]" and ev: "even i"
    then have "i < length raw" by simp
    from ev obtain k where "i = 2 * k" by (auto elim: evenE)
    with \<open>i < length raw\<close> that have "k < length raw div 2" by presburger
    with h \<open>i = 2 * k\<close> show "raw ! i = ''a'' \<or> raw ! i = ''d''" by simp
  qed
qed

text \<open>
  Claim C7. \<open>NewSortQuery\<close> returns the parsed list of (property, direction) pairs when the
  raw list has even length and every entry at an even index is \<open>"a"\<close> or \<open>"d"\<close>; for an
  odd length or any other flag (and for a nil slice) it returns \<open>NoSort\<close>.
  \<open>NewFilterQuery\<close> returns \<open>NoFilter\<close> for an odd length (and for a nil slice), and for
  an even length the equality filters that pair the property name at each even index with
  the string that follows it.
\<close>

theorem NewSortQuery_NewFilterQuery_pairs:
  "(even (length raw) \<and> validFlags raw \<longrightarrow>
      NewSortQuery (Some raw) = \<lparr>SortByList = map (sortPair raw) [0..<length raw div 2]\<rparr>)
   \<and> (\<not> (even (length raw) \<and> validFlags raw) \<longrightarrow> NewSortQuery (Some raw) = NoSort)
   \<and> NewSortQuery None = NoSort
   \<and> (odd (length raw) \<longrightarrow> NewFilterQuery (Some raw) = NoFilter)
   \<and> (even (length raw) \<longrightarrow>
      NewFilterQuery (Some raw) = \<lparr>FilterByList = map (filterPair raw) [0..<length raw div 2]\<rparr>)
   \<and> NewFilterQuery None = NoFilter"
proof -
  have s: "sortLoop raw 0 [] =
      (if validFlags raw then Some (map (sortPair raw) [0..<length raw div 2]) else None)"
    if "even (length raw)"
    using sortLoop_eq[OF that, of 0 "[]"] validFlags_iff[OF that] by simp
  have f: "filterLoop raw 0 [] = map (filterPair raw) [0..<length raw div 2]"
    if "even (length raw)"
    using filterLoop_eq[OF that, of 0 "[]"] by simp
  show ?thesis
    using s f by (auto simp: NewSortQuery_def NewFilterQuery_def odd_iff_mod_2_eq_one)
qed

theorem NewSortQuery_NewFilterQuery_pairs_witness:
  "NewSortQuery (Some [''a'', ''name'', ''d'', ''creationTimestamp'']) =
     \<lparr>SortByList = [\<lparr>Property = ''name'', Ascending = True\<rparr>,
                    \<lparr>Property = ''creationTimestamp'', Ascending = False\<rparr>]\<rparr>
   \<and> NewSortQuery (Some [''x'', ''name'']) = NoSort
   \<and> NewSortQuery (Some [''a'']) = NoSort
   \<and> NewFilterQuery (Some [''namespace'']) = NoFilter
   \<and> NewFilterQuery (Some [''namespace'', ''prod'']) =
     \<lparr>FilterByList = [\<lparr>FilterProperty = ''namespace'', Value = StdComparableString ''prod''\<rparr>]\<rparr>"
  using NewSortQuery_NewFilterQuery_pairs[of "[''a'', ''name'', ''d'', ''creationTimestamp'']"]
    NewSortQuery_NewFilterQuery_pairs[of "[''x'', ''name'']"]
    NewSortQuery_NewFilterQuery_pairs[of "[''a'']"]
    NewSortQuery_NewFilterQuery_pairs[of "[''namespace'']"]
    NewSortQuery_NewFilterQuery_pairs[of "[''namespace'', ''prod'']"]
  by (simp add: validFlags_def sortPair_def filterPair_def upt_conv_Cons)

section \<open>Update: the calls it makes\<close>

text \<open>Every call appends itself to the list of calls.\<close>

lemma calls_doGet:
  "doGet v gvr ns name s = (r, s') \<Longrightarrow> calls s' = calls s @ [GetCall gvr ns name r]"
  by (auto simp: doGet_def split: prod.splits)

lemma calls_doPatch:
  "doPatch v gvr ns name pt p s = (r, s') \<Longrightarrow> calls s' = calls s @ [PatchCall gvr ns name pt p r]"
  by (auto simp: doPatch_def split: prod.splits)

lemma updateAttempt_trace:
  assumes "updateAttempt L v gvr ns name (object, s) = (r, object', s')"
  shows "\<exists>cs. calls s' = calls s @ cs \<and> attemptTrace L gvr ns name object cs r object'"
proof -
  obtain g s1 where g: "doGet v gvr ns name s = (g, s1)" by (cases "doGet v gvr ns name s")
  note c1 = calls_doGet[OF g]
  show ?thesis
  proof (cases g)
    case (Inl getErr)
    with assms g c1 attemptTrace.fetchFailed[of L gvr ns name object getErr] show ?thesis
      by (auto simp: updateAttempt_def)
  next
    case (Inr result)
    show ?thesis
    proof (cases "MarshalJSON L result")
      case (Inl err)
      with assms g c1 Inr attemptTrace.originalNotSerialised[of L result err gvr ns name object]
      show ?thesis
        by (auto simp: updateAttempt_def)
    next
      case o: (Inr origData)
      let ?obj = "SetResourceVersion (resourceVersion result) object"
      show ?thesis
      proof (cases "threeWayMergePatch L result ?obj")
        case None
        have "\<exists>message. r = Some (ErrorString message) \<and> object' = ?obj \<and> s' = s1"
          using assms g Inr o None
          by (auto simp: updateAttempt_def threeWayMergePatch_def Let_def split: sum.splits)
        with c1 Inr attemptTrace.patchNotBuilt[OF o None] show ?thesis
          by auto
      next
        case (Some patchBytes)
        obtain a s2 where p: "doPatch v gvr ns name MergePatchType patchBytes s1 = (a, s2)"
          by (cases "doPatch v gvr ns name MergePatchType patchBytes s1")
        note c2 = calls_doPatch[OF p]
        from Some o have m: "\<exists>modifiedData. MarshalJSON L ?obj = Inr modifiedData
            \<and> CreateThreeWayJSONMergePatch L origData modifiedData origData = Inr patchBytes"
          by (auto simp: threeWayMergePatch_def split: sum.splits)
        have "attemptTrace L gvr ns name object
                [GetCall gvr ns name (Inr result), PatchCall gvr ns name MergePatchType patchBytes a]
                (case a of Inl updateErr \<Rightarrow> Some updateErr | Inr updated \<Rightarrow> None) ?obj"
          by (rule attemptTrace.patchSent[OF o Some])
        with assms g c1 Inr o m p c2 show ?thesis
          by (auto simp: updateAttempt_def Let_def split: sum.splits)
      qed
    qed
  qed
qed

lemma retryLoop_trace:
  assumes "retryLoop (Suc n) (updateAttempt L v gvr ns name) lastErr (object, s) = (r, object', s')"
  shows "\<exists>cs. calls s' = calls s @ cs \<and> updateTrace L gvr ns name (Suc n) object cs r object'"
  using assms
proof (induction n arbitrary: lastErr object s)
  case 0
  obtain r1 o1 s1 where a: "updateAttempt L v gvr ns name (object, s) = (r1, o1, s1)"
    by (cases "updateAttempt L v gvr ns name (object, s)")
  from updateAttempt_trace[OF a] obtain cs where cs: "calls s1 = calls s @ cs"
    "attemptTrace L gvr ns name object cs r1 o1" by blast
  show ?case
  proof (cases "\<exists>err. r1 = Some err \<and> IsConflict err")
    case True
    then obtain err where e: "r1 = Some err" "IsConflict err" by blast
    with 0 a have "r = Some err" "object' = o1" "s' = s1" by auto
    with cs e show ?thesis by (auto intro: updateTrace.exhausted)
  next
    case False
    with 0 a have "r = r1" "object' = o1" "s' = s1" by (auto split: option.splits if_splits)
    with cs False show ?thesis by (auto intro!: updateTrace.finished)
  qed
next
  case (Suc n)
  obtain r1 o1 s1 where a: "updateAttempt L v gvr ns name (object, s) = (r1, o1, s1)"
    by (cases "updateAttempt L v gvr ns name (object, s)")
  from updateAttempt_trace[OF a] obtain cs where cs: "calls s1 = calls s @ cs"
    "attemptTrace L gvr ns name object cs r1 o1" by blast
  show ?case
  proof (cases "\<exists>err. r1 = Some err \<and> IsConflict err")
    case True
    then obtain err where e: "r1 = Some err" "IsConflict err" by blast
    with Suc.prems a have "retryLoop (Suc n) (updateAttempt L v gvr ns name) (Some err) (o1, s1) = (r, object', s')"
      by simp
    from Suc.IH[OF this] obtain cs' where cs': "calls s' = calls s1 @ cs'"
      "updateTrace L gvr ns name (Suc n) o1 cs' r object'" by blast
    from cs e cs' have "updateTrace L gvr ns name (Suc (Suc n)) object (cs @ cs') r object'"
      by (auto intro: updateTrace.retried)
    with cs cs' show ?thesis by auto
  next
    case False
    with Suc.prems a have "r = r1" "object' = o1" "s' = s1" by (auto split: option.splits if_splits)
    with cs False show ?thesis by (auto intro!: updateTrace.finished)
  qed
qed

lemma Update_trace:
  assumes "Update L v object s = (r, object', s')"
  shows "\<exists>cs. calls s' = calls s @ cs \<and>
     updateTrace L (groupVersionResourceFromUnstructured L object) (objectNamespace object)
       (objectName object) DefaultRetry object cs r object'"
proof -
  have "DefaultRetry = Suc 4" by (simp add: DefaultRetry_def)
  with assms show ?thesis
    using retryLoop_trace[of 4 L v "groupVersionResourceFromUnstructured L object" "objectNamespace object"
        "objectName object" None object s r object' s']
    by (simp add: Update_def RetryOnConflict_def Let_def)
qed

lemma SetResourceVersion_twice [simp]:
  "SetResourceVersion v (SetResourceVersion u object) = SetResourceVersion v object"
  by (simp add: SetResourceVersion_def)

lemma attemptTrace_object:
  "attemptTrace L gvr ns name object cs r object' \<Longrightarrow>
   SetResourceVersion v object' = SetResourceVersion v object"
  by (induction rule: attemptTrace.induct) simp_all

lemma updateTrace_object:
  "updateTrace L gvr ns name n object cs r object' \<Longrightarrow>
   SetResourceVersion v object' = SetResourceVersion v object"
  by (induction rule: updateTrace.induct) (auto dest: attemptTrace_object)

lemma mergePatchWrite_object:
  assumes "\<And>v. SetResourceVersion v object' = SetResourceVersion v object"
  shows "mergePatchWrite L gvr ns name object' c c' = mergePatchWrite L gvr ns name object c c'"
  using assms by (cases "(L, gvr, ns, name, object, c, c')" rule: mergePatchWrite.cases) simp_all

lemma abortsUpdate_object:
  assumes "\<And>v. SetResourceVersion v object' = SetResourceVersion v object"
  shows "abortsUpdate L object' c = abortsUpdate L object c"
  using assms by (cases "(L, object, c)" rule: abortsUpdate.cases) simp_all

lemma attemptTrace_shape:
  assumes "attemptTrace L gvr ns name object cs r object'"
  shows "cs \<noteq> [] \<and> isFetch (hd cs) \<and> successively (nextCall L gvr ns name object) cs \<and>
         (\<forall>c \<in> set cs. isFetch c \<or> isWrite c) \<and> length (filter isFetch cs) = 1 \<and>
         (abortsUpdate L object (last cs) \<longrightarrow> r \<noteq> None \<and> (\<forall>err. r = Some err \<longrightarrow> \<not> IsConflict err)) \<and>
         (writeSucceeded (last cs) \<longleftrightarrow> r = None) \<and>
         (writeConflict (last cs) \<longleftrightarrow> (\<exists>err. r = Some err \<and> IsConflict err)) \<and>
         (abortsUpdate L object (last cs) \<or> writeSucceeded (last cs) \<or> writeConflict (last cs))"
  using assms
proof (induction rule: attemptTrace.induct)
  case (fetchFailed getErr)
  then show ?case by simp
next
  case (originalNotSerialised result err)
  then show ?case by (simp add: threeWayMergePatch_def)
next
  case (patchNotBuilt result origData message)
  then show ?case by simp
next
  case (patchSent result origData patchBytes answer)
  then show ?case by (cases answer) (simp_all add: nextCall_def)
qed

lemma nextCall_object:
  assumes "\<And>v. SetResourceVersion v object' = SetResourceVersion v object"
  shows "nextCall L gvr ns name object' = nextCall L gvr ns name object"
  using mergePatchWrite_object[OF assms] abortsUpdate_object[OF assms]
  by (simp add: nextCall_def fun_eq_iff)

lemma nextCall_after_conflict:
  assumes "writeConflict c" "isFetch c'"
  shows "nextCall L gvr ns name object c c'"
proof -
  from assms(1) obtain g n m pt p err where c: "c = PatchCall g n m pt p (Inl err)" "IsConflict err"
    by (cases c rule: writeConflict.cases) auto
  from assms(2) obtain g' n' m' a where c': "c' = GetCall g' n' m' a"
    by (cases c' rule: isFetch.cases) auto
  show ?thesis by (simp add: nextCall_def c c')
qed

lemma updateTrace_shape:
  assumes "updateTrace L gvr ns name n object cs r object'"
  shows "cs \<noteq> [] \<and> isFetch (hd cs) \<and> successively (nextCall L gvr ns name object) cs \<and>
         (\<forall>c \<in> set cs. isFetch c \<or> isWrite c) \<and>
         1 \<le> length (filter isFetch cs) \<and> length (filter isFetch cs) \<le> n \<and>
         lastCall L object n cs r"
  using assms
proof (induction rule: updateTrace.induct)
  case (finished object cs r object' steps)
  from attemptTrace_shape[OF finished(1)] finished(2) show ?case
    by (auto simp: lastCall_def)
next
  case (exhausted object cs err object')
  from attemptTrace_shape[OF exhausted(1)] exhausted(2) show ?case
    by (auto simp: lastCall_def)
next
  case (retried object cs err object' steps cs' r object'')
  note a = attemptTrace_shape[OF retried(1)]
  note o = attemptTrace_object[OF retried(1)]
  have st: "nextCall L gvr ns name object' = nextCall L gvr ns name object"
    by (rule nextCall_object) (rule o)
  have ab: "abortsUpdate L object' c = abortsUpdate L object c" for c
    by (rule abortsUpdate_object) (rule o)
  from a retried(2) have lc: "writeConflict (last cs)" by auto
  from retried.IH have ih: "cs' \<noteq> []" "isFetch (hd cs')"
    "successively (nextCall L gvr ns name object) cs'"
    "\<forall>c \<in> set cs'. isFetch c \<or> isWrite c"
    "1 \<le> length (filter isFetch cs')" "length (filter isFetch cs') \<le> Suc steps"
    "lastCall L object (Suc steps) cs' r"
    by (auto simp: st lastCall_def ab)
  have s: "successively (nextCall L gvr ns name object) (cs @ cs')"
    using a ih(1,2,3) nextCall_after_conflict[OF lc ih(2)]
    by (simp add: successively_append_iff)
  have f: "length (filter isFetch (cs @ cs')) = Suc (length (filter isFetch cs'))"
    using a by simp
  have e: "lastCall L object (Suc (Suc steps)) (cs @ cs') r"
    using ih(1,7) f by (auto simp: lastCall_def)
  from a ih s f e show ?case by auto
qed

lemma callsSince_append:
  "calls s' = calls s @ cs \<Longrightarrow> callsSince s s' = cs"
  by (simp add: callsSince_def)

lemma Update_example:
  "Update exampleLibrary exampleVerber desired initialState =
     (None, desired\<lparr>resourceVersion := ''8''\<rparr>,
      \<lparr>kindToGroupVersionResource = Map.empty, world = 2,
       calls = [GetCall deployments ''prod'' ''web'' (Inr (serverCopy 0)),
                PatchCall deployments ''prod'' ''web'' MergePatchType ''web:7:replicas=1>web:7:replicas=3''
                  (Inl (StatusError StatusReasonConflict ''the object has been modified'')),
                GetCall deployments ''prod'' ''web'' (Inr (serverCopy 1)),
                PatchCall deployments ''prod'' ''web'' MergePatchType ''web:8:replicas=1>web:8:replicas=3''
                  (Inr (serverCopy 2))]\<rparr>)"
  by (simp add: Let_def Update_def RetryOnConflict_def DefaultRetry_def eval_nat_numeral updateAttempt_def
      doGet_def doPatch_def exampleVerber_def exampleLibrary_def desired_def initialState_def
      serverCopy_def groupVersionResourceFromUnstructured_def SetResourceVersion_def deployments_def)

lemma Update_example_settled:
  "Update exampleLibrary exampleVerber desiredUpToDate settledState =
     (None, desiredUpToDate,
      \<lparr>kindToGroupVersionResource = Map.empty, world = 2,
       calls = [GetCall deployments ''prod'' ''web'' (Inr (serverCopy 1)),
                PatchCall deployments ''prod'' ''web'' MergePatchType ''web:8:replicas=1>web:8:replicas=3''
                  (Inr (serverCopy 2))]\<rparr>)"
  by (simp add: Let_def Update_def RetryOnConflict_def DefaultRetry_def eval_nat_numeral updateAttempt_def
      doGet_def doPatch_def exampleVerber_def exampleLibrary_def desired_def settledState_def
      desiredUpToDate_def
      serverCopy_def groupVersionResourceFromUnstructured_def SetResourceVersion_def deployments_def)

lemma Update_example':
  "Update exampleLibrary exampleVerber desired initialState =
     (None, desiredUpToDate, updatedState)"
  using Update_example by (simp add: updatedState_def desiredUpToDate_def)

lemma callsSince_example:
  "callsSince initialState updatedState = calls updatedState"
  by (simp add: callsSince_def initialState_def)

lemma Update_example_busy:
  "Update exampleLibrary busyVerber desired initialState =
     (Some (ErrorString ''failed to get latest deployments version: busy''), desired,
      initialState\<lparr>calls := [GetCall deployments ''prod'' ''web''
                                (Inl (StatusError StatusReasonConflict ''busy''))]\<rparr>)"
  by (simp add: Let_def Update_def RetryOnConflict_def DefaultRetry_def eval_nat_numeral updateAttempt_def
      doGet_def doPatch_def busyVerber_def exampleVerber_def exampleLibrary_def desired_def initialState_def
      serverCopy_def groupVersionResourceFromUnstructured_def SetResourceVersion_def deployments_def)

lemma serialisedFetches_append:
  "serialisedFetches L (cs @ cs') = serialisedFetches L cs @ serialisedFetches L cs'"
  by (induction L cs rule: serialisedFetches.induct) (auto split: sum.splits)

lemma attemptTrace_withLastVersion:
  "attemptTrace L gvr ns name object cs r object' \<Longrightarrow>
   object' = withLastVersion object (serialisedFetches L cs)"
  by (induction rule: attemptTrace.induct) (simp_all add: withLastVersion_def)

lemma withLastVersion_append:
  "withLastVersion (withLastVersion object rs) rs' = withLastVersion object (rs @ rs')"
  by (simp add: withLastVersion_def)

lemma updateTrace_withLastVersion:
  "updateTrace L gvr ns name n object cs r object' \<Longrightarrow>
   object' = withLastVersion object (serialisedFetches L cs)"
proof (induction rule: updateTrace.induct)
  case (retried object cs err object' steps cs' r object'')
  then show ?case
    using attemptTrace_withLastVersion[OF retried(1)]
    by (simp add: serialisedFetches_append withLastVersion_append)
qed (auto dest: attemptTrace_withLastVersion)



text \<open>
  Claim C2. \<open>Update\<close> makes at least one and at most \<open>DefaultRetry\<close> fetches, one for each
  attempt. A fetch other than the first comes right after a write that failed with a
  conflict. A failed fetch, a fetched copy from which the patch cannot be built
  (serialisation or patch construction fails) and a write that failed with another error
  are the last call, and \<open>Update\<close> returns an error that is not a conflict. A write that
  failed with a conflict is followed by a fetch, unless it is the last call: then all
  \<open>DefaultRetry\<close> attempts are used up and the conflict is returned.
\<close>

theorem Update_retries_only_on_write_conflict:
  assumes "Update L v object s = (r, object', s')"
  shows "1 \<le> length (filter isFetch (callsSince s s')) \<and>
         length (filter isFetch (callsSince s s')) \<le> DefaultRetry \<and>
         (\<forall>i. Suc i < length (callsSince s s') \<and> isFetch (callsSince s s' ! Suc i) \<longrightarrow>
              writeConflict (callsSince s s' ! i)) \<and>
         (\<forall>i < length (callsSince s s'). abortsUpdate L object (callsSince s s' ! i) \<longrightarrow>
              Suc i = length (callsSince s s') \<and> (\<exists>err. r = Some err \<and> \<not> IsConflict err)) \<and>
         (\<forall>i < length (callsSince s s'). writeConflict (callsSince s s' ! i) \<longrightarrow>
              (if Suc i = length (callsSince s s')
               then length (filter isFetch (callsSince s s')) = DefaultRetry \<and>
                    (\<exists>err. r = Some err \<and> IsConflict err)
               else isFetch (callsSince s s' ! Suc i)))"
proof -
  let ?gvr = "groupVersionResourceFromUnstructured L object"
  let ?ns = "objectNamespace object"
  let ?name = "objectName object"
  from Update_trace[OF assms] obtain cs where cs: "calls s' = calls s @ cs"
    "updateTrace L ?gvr ?ns ?name DefaultRetry object cs r object'" by blast
  have eq: "callsSince s s' = cs" by (rule callsSince_append) (rule cs(1))
  from updateTrace_shape[OF cs(2)] have sh: "cs \<noteq> []"
    "successively (nextCall L ?gvr ?ns ?name object) cs" "\<forall>c \<in> set cs. isFetch c \<or> isWrite c"
    "1 \<le> length (filter isFetch cs)" "length (filter isFetch cs) \<le> DefaultRetry"
    "lastCall L object DefaultRetry cs r" by simp_all
  have st: "nextCall L ?gvr ?ns ?name object (cs ! i) (cs ! Suc i)" if "Suc i < length cs" for i
    using successively_nth[OF sh(2) that] .
  have lst: "cs ! i = last cs" if "i < length cs" "\<not> Suc i < length cs" for i
  proof -
    from that have "i = length cs - 1" by arith
    with sh(1) show ?thesis by (simp add: last_conv_nth)
  qed
  have a: "writeConflict (cs ! i)" if "Suc i < length cs" "isFetch (cs ! Suc i)" for i
    using st[OF that(1)] that(2) by (simp add: nextCall_def)
  have b: "Suc i = length cs \<and> (\<exists>err. r = Some err \<and> \<not> IsConflict err)"
    if i: "i < length cs" and ab: "abortsUpdate L object (cs ! i)" for i
  proof (cases "Suc i < length cs")
    case True
    with st[OF True] ab show ?thesis by (simp add: nextCall_def)
  next
    case False
    with lst[OF i False] sh(6) ab i show ?thesis by (auto simp: lastCall_def)
  qed
  have c: "if Suc i = length cs
           then length (filter isFetch cs) = DefaultRetry \<and> (\<exists>err. r = Some err \<and> IsConflict err)
           else isFetch (cs ! Suc i)"
    if i: "i < length cs" and wc: "writeConflict (cs ! i)" for i
  proof (cases "Suc i < length cs")
    case True
    from wc have w: "isWrite (cs ! i)" "\<not> isFetch (cs ! i)"
      by (cases "cs ! i" rule: writeConflict.cases; simp)+
    have "\<not> isWrite (cs ! Suc i)"
    proof
      assume "isWrite (cs ! Suc i)"
      with st[OF True] have "mergePatchWrite L ?gvr ?ns ?name object (cs ! i) (cs ! Suc i)"
        by (simp add: nextCall_def)
      with w(2) show False
        by (cases "(L, ?gvr, ?ns, ?name, object, cs ! i, cs ! Suc i)" rule: mergePatchWrite.cases) auto
    qed
    moreover from sh(3) True have "isFetch (cs ! Suc i) \<or> isWrite (cs ! Suc i)" by simp
    ultimately show ?thesis using True by auto
  next
    case False
    with lst[OF i False] sh(6) wc i show ?thesis by (auto simp: lastCall_def)
  qed
  show ?thesis unfolding eq using sh(4,5) a b c by blast
qed

theorem Update_retries_only_on_write_conflict_witness:
  "Update exampleLibrary exampleVerber desired initialState = (None, desiredUpToDate, updatedState)
   \<and> length (filter isFetch (calls updatedState)) = 2
   \<and> isFetch (calls updatedState ! 2)
   \<and> writeConflict (calls updatedState ! 1)
   \<and> 2 \<le> DefaultRetry
   \<and> Update exampleLibrary busyVerber desired initialState =
       (Some (ErrorString ''failed to get latest deployments version: busy''), desired,
        initialState\<lparr>calls := [GetCall deployments ''prod'' ''web''
                                  (Inl (StatusError StatusReasonConflict ''busy''))]\<rparr>)
   \<and> \<not> IsConflict (ErrorString ''failed to get latest deployments version: busy'')"
proof -
  note t = Update_retries_only_on_write_conflict[OF Update_example', unfolded callsSince_example]
  have l: "length (filter isFetch (calls updatedState)) = 2"
    by (simp add: updatedState_def)
  have f: "Suc 1 < length (calls updatedState) \<and> isFetch (calls updatedState ! Suc 1)"
    by (simp add: updatedState_def)
  from t f have c: "writeConflict (calls updatedState ! 1)" by blast
  note u = Update_retries_only_on_write_conflict[OF Update_example_busy]
  have b: "callsSince initialState
             (initialState\<lparr>calls := [GetCall deployments ''prod'' ''web''
                                       (Inl (StatusError StatusReasonConflict ''busy''))]\<rparr>)
           = [GetCall deployments ''prod'' ''web'' (Inl (StatusError StatusReasonConflict ''busy''))]"
    by (simp add: callsSince_def initialState_def)
  from u have "\<exists>err. Some (ErrorString ''failed to get latest deployments version: busy'')
                  = Some err \<and> \<not> IsConflict err"
    unfolding b by simp
  then have n: "\<not> IsConflict (ErrorString ''failed to get latest deployments version: busy'')"
    by simp
  from t l f c n Update_example' Update_example_busy show ?thesis
    by (simp add: eval_nat_numeral)
qed

text \<open>
  Claim C10, as amended. \<open>Update\<close> changes the caller's object in one field only: when it
  returns, the object carries the resource version of the last server copy that was
  fetched and serialised, which may be the version it was passed in with. When no fetched
  copy could be serialised the object is as it was.
\<close>

theorem Update_leaves_server_version_in_object:
  assumes "Update L v object s = (r, object', s')"
  shows "object' =
     (if serialisedFetches L (callsSince s s') = [] then object
      else object\<lparr>resourceVersion :=
             resourceVersion (last (serialisedFetches L (callsSince s s')))\<rparr>)"
proof -
  from Update_trace[OF assms] obtain cs where cs: "calls s' = calls s @ cs"
    "updateTrace L (groupVersionResourceFromUnstructured L object) (objectNamespace object)
       (objectName object) DefaultRetry object cs r object'" by blast
  have eq: "callsSince s s' = cs" by (rule callsSince_append) (rule cs(1))
  from updateTrace_withLastVersion[OF cs(2)] show ?thesis
    unfolding eq by (simp add: withLastVersion_def SetResourceVersion_def)
qed

theorem Update_leaves_server_version_in_object_witness:
  "Update exampleLibrary exampleVerber desired initialState = (None, desiredUpToDate, updatedState)
   \<and> serialisedFetches exampleLibrary (calls updatedState) = [serverCopy 0, serverCopy 1]
   \<and> resourceVersion desired = ''5''
   \<and> desiredUpToDate = desired\<lparr>resourceVersion := resourceVersion (serverCopy 1)\<rparr>"
proof -
  note t = Update_leaves_server_version_in_object[OF Update_example', unfolded callsSince_example]
  have f: "serialisedFetches exampleLibrary (calls updatedState) = [serverCopy 0, serverCopy 1]"
    by (simp add: updatedState_def exampleLibrary_def)
  from t f have "desiredUpToDate = desired\<lparr>resourceVersion := resourceVersion (serverCopy 1)\<rparr>"
    by simp
  with f Update_example' show ?thesis by (simp add: desired_def)
qed

theorem Update_keeps_version_counterexample:
  "Update exampleLibrary exampleVerber desiredUpToDate settledState =
     (None, desiredUpToDate,
      \<lparr>kindToGroupVersionResource = Map.empty, world = 2,
       calls = [GetCall deployments ''prod'' ''web'' (Inr (serverCopy 1)),
                PatchCall deployments ''prod'' ''web'' MergePatchType
                  ''web:8:replicas=1>web:8:replicas=3'' (Inr (serverCopy 2))]\<rparr>)
   \<and> resourceVersion (fst (snd (Update exampleLibrary exampleVerber desiredUpToDate settledState)))
       = resourceVersion desiredUpToDate"
  using Update_example_settled by simp

section \<open>Kind resolution and the cache\<close>

text \<open>
  The loops of \<open>buildGroupVersionResourceCache\<close> insert the entries of the catalog one
  after the other.
\<close>

lemma insertEntries_append:
  "insertEntries (es @ es') cache = insertEntries es' (insertEntries es cache)"
  by (simp add: insertEntries_def)

lemma insertEntries_Nil [simp]: "insertEntries [] cache = cache"
  by (simp add: insertEntries_def)

lemma cacheAPIResources_entries:
  "cacheAPIResources L gv rs cache = insertEntries (concat (map (cacheEntries L gv) rs)) cache"
proof (induction rs arbitrary: cache)
  case Nil
  show ?case by simp
next
  case (Cons r rs)
  show ?case
  proof (cases "CHR ''/'' \<in> set (Name r)")
    case True
    then show ?thesis using Cons.IH by (simp add: cacheEntries_def)
  next
    case False
    then show ?thesis using Cons.IH
      by (simp add: cacheEntries_def coordinate_def Let_def insertEntries_def)
  qed
qed

lemma build_entries:
  "buildGroupVersionResourceCache L resourceList cache = (None, cache') \<Longrightarrow>
   cache' = insertEntries (catalogEntries L resourceList) cache"
proof (induction resourceList arbitrary: cache)
  case Nil
  then show ?case by simp
next
  case (Cons resource rest)
  then show ?case
    by (auto simp: cacheAPIResources_entries insertEntries_append split: sum.splits)
qed

lemma build_parses:
  "buildGroupVersionResourceCache L resourceList cache = (None, cache') \<Longrightarrow>
   resource \<in> set resourceList \<Longrightarrow> \<exists>gv. ParseGroupVersion L (GroupVersionString resource) = Inr gv"
proof (induction resourceList arbitrary: cache)
  case Nil
  then show ?case by simp
next
  case (Cons a rest)
  then show ?case by (auto split: sum.splits)
qed

lemma build_error:
  "buildGroupVersionResourceCache L resourceList cache = (Some err, cache') \<Longrightarrow>
   \<exists>resource \<in> set resourceList. ParseGroupVersion L (GroupVersionString resource) = Inl err"
proof (induction resourceList arbitrary: cache)
  case Nil
  then show ?case by simp
next
  case (Cons a rest)
  then show ?case by (auto split: sum.splits)
qed






lemma build_example:
  "buildGroupVersionResourceCache exampleLibrary exampleCatalog Map.empty =
     (None, snd (buildGroupVersionResourceCache exampleLibrary exampleCatalog Map.empty))"
  by (simp add: exampleLibrary_def exampleCatalog_def exampleParseGroupVersion_def)

lemma catalogEntries_example:
  "catalogEntries exampleLibrary exampleCatalog =
     [(''pod'', \<lparr>Group = [], Version = ''v1'', Resource = ''pods''\<rparr>),
      (''pods.'', \<lparr>Group = [], Version = ''v1'', Resource = ''pods''\<rparr>),
      (''deployment'', deployments),
      (''deployments.apps'', deployments)]"
  by (simp add: exampleLibrary_def exampleCatalog_def exampleParseGroupVersion_def
      cacheEntries_def coordinate_def deployments_def)



lemma insertEntries_example:
  "insertEntries (catalogEntries exampleLibrary exampleCatalog) Map.empty ''widget'' = None"
  "insertEntries (catalogEntries exampleLibrary exampleCatalog) Map.empty ''deployment'' = Some deployments"
  by (simp_all add: catalogEntries_example insertEntries_def)

lemma calls_doServerGroupsAndResources:
  "doServerGroupsAndResources v s = (a, s1) \<Longrightarrow>
   a = fst (discoveryServerGroupsAndResources v (world s)) \<and>
   s1 = s\<lparr>world := snd (discoveryServerGroupsAndResources v (world s)),
          calls := calls s @ [DiscoveryCall a]\<rparr>"
  by (auto simp: doServerGroupsAndResources_def split: prod.splits)



text \<open>
  Claim C3, as amended. On a cache hit \<open>groupVersionResourceFromKind\<close> returns the cached
  coordinate and leaves the state as it is. On a miss it calls the catalog exactly once.
  When that call reports an error, the error is returned and the cache is not touched.
  Otherwise the cache is rebuilt once from the catalog: when a group-version string does
  not parse, the parse error is returned; when all parse, the cache is looked up once more
  and the result is the coordinate found there or, when the kind is still absent, an error
  that names the kind.
\<close>

theorem groupVersionResourceFromKind_hit_or_one_refresh:
  assumes "groupVersionResourceFromKind L v kind s = (res, s')"
    and "discoveryServerGroupsAndResources v (world s) = ((catalog, err), w)"
  shows "(\<forall>gvr. kindToGroupVersionResource s kind = Some gvr \<longrightarrow> res = Inr gvr \<and> s' = s) \<and>
         (kindToGroupVersionResource s kind = None \<longrightarrow>
            callsSince s s' = [DiscoveryCall (catalog, err)] \<and> world s' = w \<and>
            (case err of
               Some e \<Rightarrow>
                 res = Inl e \<and> kindToGroupVersionResource s' = kindToGroupVersionResource s
             | None \<Rightarrow>
                 kindToGroupVersionResource s' =
                   snd (buildGroupVersionResourceCache L catalog (kindToGroupVersionResource s)) \<and>
                 (case fst (buildGroupVersionResourceCache L catalog
                              (kindToGroupVersionResource s)) of
                    Some e \<Rightarrow> res = Inl e
                  | None \<Rightarrow>
                      res = (case kindToGroupVersionResource s' kind of
                               Some gvr \<Rightarrow> Inr gvr
                             | None \<Rightarrow>
                                 Inl (ErrorString (''could not find GVR for kind '' @ kind))))))"
proof (intro conjI allI impI)
  fix gvr assume "kindToGroupVersionResource s kind = Some gvr"
  with assms(1) show "res = Inr gvr" "s' = s"
    by (simp_all add: groupVersionResourceFromKind_def)
next
  assume miss: "kindToGroupVersionResource s kind = None"
  define s1 where "s1 = s\<lparr>world := w, calls := calls s @ [DiscoveryCall (catalog, err)]\<rparr>"
  have d: "doServerGroupsAndResources v s = ((catalog, err), s1)"
    using assms(2) by (simp add: doServerGroupsAndResources_def s1_def)
  obtain be c where b: "buildGroupVersionResourceCache L catalog (kindToGroupVersionResource s) = (be, c)"
    by (cases "buildGroupVersionResourceCache L catalog (kindToGroupVersionResource s)")
  have k1: "kindToGroupVersionResource s1 = kindToGroupVersionResource s"
    by (simp add: s1_def)
  have r: "(res, s') =
      (case err of Some e \<Rightarrow> (Inl e, s1)
       | None \<Rightarrow> (case be of Some e \<Rightarrow> (Inl e, s1\<lparr>kindToGroupVersionResource := c\<rparr>)
           | None \<Rightarrow> (case c kind of Some gvr \<Rightarrow> (Inr gvr, s1\<lparr>kindToGroupVersionResource := c\<rparr>)
               | None \<Rightarrow> (Inl (ErrorString (''could not find GVR for kind '' @ kind)),
                           s1\<lparr>kindToGroupVersionResource := c\<rparr>))))"
    using assms(1) miss d b k1
    by (simp add: groupVersionResourceFromKind_def Let_def split: option.splits)
  have cs: "calls s' = calls s @ [DiscoveryCall (catalog, err)]" and w: "world s' = w"
    using r by (auto simp: s1_def split: option.splits)
  from cs show "callsSince s s' = [DiscoveryCall (catalog, err)]"
    by (simp add: callsSince_def)
  from w show "world s' = w" .
  show "case err of
      Some e \<Rightarrow> res = Inl e \<and> kindToGroupVersionResource s' = kindToGroupVersionResource s
    | None \<Rightarrow>
        kindToGroupVersionResource s' =
          snd (buildGroupVersionResourceCache L catalog (kindToGroupVersionResource s)) \<and>
        (case fst (buildGroupVersionResourceCache L catalog (kindToGroupVersionResource s)) of
           Some e \<Rightarrow> res = Inl e
         | None \<Rightarrow>
             res = (case kindToGroupVersionResource s' kind of
                      Some gvr \<Rightarrow> Inr gvr
                    | None \<Rightarrow> Inl (ErrorString (''could not find GVR for kind '' @ kind))))"
    using r b by (auto simp: s1_def split: option.splits)
qed

theorem groupVersionResourceFromKind_hit_or_one_refresh_witness:
  "callsSince initialState
     (snd (groupVersionResourceFromKind exampleLibrary exampleVerber ''widget'' initialState))
     = [DiscoveryCall (exampleCatalog, None)]
   \<and> fst (groupVersionResourceFromKind exampleLibrary exampleVerber ''widget'' initialState)
     = Inl (ErrorString ''could not find GVR for kind widget'')
   \<and> fst (groupVersionResourceFromKind exampleLibrary exampleVerber ''deployment'' initialState)
     = Inr deployments"
proof -
  have d: "discoveryServerGroupsAndResources exampleVerber (world initialState)
             = ((exampleCatalog, None), 0)"
    by (simp add: exampleVerber_def initialState_def)
  have m: "kindToGroupVersionResource initialState k = None" for k
    by (simp add: initialState_def)
  have b: "buildGroupVersionResourceCache exampleLibrary exampleCatalog
             (kindToGroupVersionResource initialState)
           = (None, insertEntries (catalogEntries exampleLibrary exampleCatalog) Map.empty)"
    using build_example build_entries[OF build_example] by (simp add: initialState_def)
  note t = groupVersionResourceFromKind_hit_or_one_refresh[OF surjective_pairing d]
  from t[where L = exampleLibrary and kind = "''widget''"]
    t[where L = exampleLibrary and kind = "''deployment''"] m b
  show ?thesis by (simp add: insertEntries_example)
qed

text \<open>
  The claim as it was stated fails when the catalog call reports an error: the kind is
  absent, no rebuild takes place although the call returned resource lists, and the error
  returned does not name the kind.
\<close>

theorem groupVersionResourceFromKind_refresh_error_counterexample:
  "kindToGroupVersionResource initialState ''pod'' = None
   \<and> groupVersionResourceFromKind exampleLibrary degradedVerber ''pod'' initialState =
       (Inl (ErrorString ''unable to retrieve the complete list of server APIs''),
        initialState\<lparr>calls := [DiscoveryCall (exampleCatalog,
           Some (ErrorString ''unable to retrieve the complete list of server APIs''))]\<rparr>)
   \<and> ErrorString ''unable to retrieve the complete list of server APIs''
       \<noteq> ErrorString ''could not find GVR for kind pod''"
  by (simp add: groupVersionResourceFromKind_def doServerGroupsAndResources_def
      degradedVerber_def exampleVerber_def initialState_def)




section \<open>Delete and Create\<close>



lemma Create_example:
  "Create exampleLibrary exampleVerber desired resolvedState =
     (Inr desired,
      resolvedState\<lparr>calls := calls resolvedState @ [CreateCall deployments ''prod'' desired (Inr desired)]\<rparr>)"
  by (simp add: Create_def doCreate_def Let_def exampleVerber_def exampleLibrary_def
      groupVersionResourceFromUnstructured_def desired_def deployments_def resolvedState_def)

lemma updateAttempt_cache:
  assumes "updateAttempt L v gvr ns name (object, s) = (r, object', s')"
  shows "kindToGroupVersionResource s' = kindToGroupVersionResource s \<and>
         updateAttempt L v gvr ns name (object, s\<lparr>kindToGroupVersionResource := cache\<rparr>)
           = (r, object', s'\<lparr>kindToGroupVersionResource := cache\<rparr>)"
  using assms
  by (auto simp: updateAttempt_def doGet_def doPatch_def Let_def
      split: prod.splits sum.splits)

lemma retryLoop_cache:
  assumes "retryLoop n (updateAttempt L v gvr ns name) lastErr (object, s) = (r, object', s')"
  shows "kindToGroupVersionResource s' = kindToGroupVersionResource s \<and>
         retryLoop n (updateAttempt L v gvr ns name) lastErr
           (object, s\<lparr>kindToGroupVersionResource := cache\<rparr>)
           = (r, object', s'\<lparr>kindToGroupVersionResource := cache\<rparr>)"
  using assms
proof (induction n arbitrary: lastErr object s)
  case 0
  then show ?case by simp
next
  case (Suc n)
  obtain r1 o1 s1 where a: "updateAttempt L v gvr ns name (object, s) = (r1, o1, s1)"
    by (cases "updateAttempt L v gvr ns name (object, s)")
  note c = updateAttempt_cache[OF a, of cache]
  show ?case
  proof (cases "\<exists>err. r1 = Some err \<and> IsConflict err")
    case True
    then obtain err where e: "r1 = Some err" "IsConflict err" by blast
    with Suc.prems a have "retryLoop n (updateAttempt L v gvr ns name) (Some err) (o1, s1) = (r, object', s')"
      by simp
    from Suc.IH[OF this] c e show ?thesis by simp
  next
    case False
    with Suc.prems a have "r = r1" "object' = o1" "s' = s1"
      by (auto split: option.splits if_splits)
    with c False show ?thesis by (auto split: option.splits)
  qed
qed

lemma attemptTrace_coordinate:
  "attemptTrace L gvr ns name object cs r object' \<Longrightarrow> \<forall>c \<in> set cs. callCoordinate c = Some gvr"
  by (induction rule: attemptTrace.induct) simp_all

lemma updateTrace_coordinate:
  "updateTrace L gvr ns name n object cs r object' \<Longrightarrow> \<forall>c \<in> set cs. callCoordinate c = Some gvr"
  by (induction rule: updateTrace.induct) (auto dest: attemptTrace_coordinate)



text \<open>
  Claim C5. The coordinate that \<open>Create\<close> and \<open>Update\<close> use is made of the group and the
  version of the object's own kind and of the plural of its lower-cased kind name. All
  their calls go to that coordinate, they leave the cache as it is, and with any other
  cache they make the same calls and return the same results.
\<close>

theorem Create_Update_coordinate_from_object:
  "groupVersionResourceFromUnstructured L object =
     \<lparr>Group = gvkGroup (objectKind object), Version = gvkVersion (objectKind object),
      Resource = Pluralize L (ToLower L (gvkKind (objectKind object)))\<rparr>
   \<and> (\<forall>res s'. Create L v object s = (res, s') \<longrightarrow>
        callsSince s s' =
          [CreateCall (groupVersionResourceFromUnstructured L object) (objectNamespace object)
             object res] \<and>
        kindToGroupVersionResource s' = kindToGroupVersionResource s \<and>
        Create L v object (s\<lparr>kindToGroupVersionResource := cache\<rparr>)
          = (res, s'\<lparr>kindToGroupVersionResource := cache\<rparr>))
   \<and> (\<forall>r object' s'. Update L v object s = (r, object', s') \<longrightarrow>
        (\<forall>c \<in> set (callsSince s s').
           callCoordinate c = Some (groupVersionResourceFromUnstructured L object)) \<and>
        kindToGroupVersionResource s' = kindToGroupVersionResource s \<and>
        Update L v object (s\<lparr>kindToGroupVersionResource := cache\<rparr>)
          = (r, object', s'\<lparr>kindToGroupVersionResource := cache\<rparr>))"
proof (intro conjI allI impI)
  show "groupVersionResourceFromUnstructured L object =
     \<lparr>Group = gvkGroup (objectKind object), Version = gvkVersion (objectKind object),
      Resource = Pluralize L (ToLower L (gvkKind (objectKind object)))\<rparr>"
    by (simp add: groupVersionResourceFromUnstructured_def Let_def)
next
  fix res s' assume c: "Create L v object s = (res, s')"
  then show "callsSince s s' =
      [CreateCall (groupVersionResourceFromUnstructured L object) (objectNamespace object) object res]"
    "kindToGroupVersionResource s' = kindToGroupVersionResource s"
    "Create L v object (s\<lparr>kindToGroupVersionResource := cache\<rparr>)
       = (res, s'\<lparr>kindToGroupVersionResource := cache\<rparr>)"
    by (auto simp: Create_def doCreate_def Let_def callsSince_def split: prod.splits)
next
  fix r object' s' assume u: "Update L v object s = (r, object', s')"
  from Update_trace[OF u] obtain cs where cs: "calls s' = calls s @ cs"
    "updateTrace L (groupVersionResourceFromUnstructured L object) (objectNamespace object)
       (objectName object) DefaultRetry object cs r object'" by blast
  have eq: "callsSince s s' = cs" by (rule callsSince_append) (rule cs(1))
  from updateTrace_coordinate[OF cs(2)]
  show "\<forall>c \<in> set (callsSince s s').
          callCoordinate c = Some (groupVersionResourceFromUnstructured L object)"
    unfolding eq .
  from u have l: "retryLoop DefaultRetry
      (updateAttempt L v (groupVersionResourceFromUnstructured L object) (objectNamespace object)
         (objectName object)) None (object, s) = (r, object', s')"
    by (simp add: Update_def RetryOnConflict_def Let_def)
  from retryLoop_cache[OF l, of cache]
  show "kindToGroupVersionResource s' = kindToGroupVersionResource s"
    "Update L v object (s\<lparr>kindToGroupVersionResource := cache\<rparr>)
       = (r, object', s'\<lparr>kindToGroupVersionResource := cache\<rparr>)"
    by (simp_all add: Update_def RetryOnConflict_def Let_def)
qed

theorem Create_Update_coordinate_from_object_witness:
  "groupVersionResourceFromUnstructured exampleLibrary desired = deployments
   \<and> Create exampleLibrary exampleVerber desired resolvedState =
       (Inr desired,
        resolvedState\<lparr>calls := calls resolvedState
           @ [CreateCall deployments ''prod'' desired (Inr desired)]\<rparr>)
   \<and> Create exampleLibrary exampleVerber desired
        (resolvedState\<lparr>kindToGroupVersionResource := Map.empty\<rparr>) =
       (Inr desired,
        resolvedState\<lparr>calls := calls resolvedState
           @ [CreateCall deployments ''prod'' desired (Inr desired)],
           kindToGroupVersionResource := Map.empty\<rparr>)
   \<and> Update exampleLibrary exampleVerber desired initialState = (None, desiredUpToDate, updatedState)
   \<and> map callCoordinate (calls updatedState) =
       [Some deployments, Some deployments, Some deployments, Some deployments]
   \<and> Update exampleLibrary exampleVerber desired
        (initialState\<lparr>kindToGroupVersionResource := [''deployment'' \<mapsto> deployments]\<rparr>) =
       (None, desiredUpToDate,
        updatedState\<lparr>kindToGroupVersionResource := [''deployment'' \<mapsto> deployments]\<rparr>)"
proof -
  note t = Create_Update_coordinate_from_object[of exampleLibrary desired]
  have g: "groupVersionResourceFromUnstructured exampleLibrary desired = deployments"
    using t[of exampleVerber initialState Map.empty, THEN conjunct1]
    by (simp add: desired_def exampleLibrary_def deployments_def)
  from t[of exampleVerber resolvedState Map.empty] Create_example
  have c: "Create exampleLibrary exampleVerber desired
        (resolvedState\<lparr>kindToGroupVersionResource := Map.empty\<rparr>) =
       (Inr desired,
        resolvedState\<lparr>calls := calls resolvedState
           @ [CreateCall deployments ''prod'' desired (Inr desired)],
           kindToGroupVersionResource := Map.empty\<rparr>)"
    by simp
  from t[of exampleVerber initialState "[''deployment'' \<mapsto> deployments]"] Update_example'
  have u: "(\<forall>c \<in> set (callsSince initialState updatedState).
              callCoordinate c = Some (groupVersionResourceFromUnstructured exampleLibrary desired))"
    "Update exampleLibrary exampleVerber desired
        (initialState\<lparr>kindToGroupVersionResource := [''deployment'' \<mapsto> deployments]\<rparr>) =
       (None, desiredUpToDate,
        updatedState\<lparr>kindToGroupVersionResource := [''deployment'' \<mapsto> deployments]\<rparr>)"
    by simp_all
  from u(1) g have m: "map callCoordinate (calls updatedState) =
       [Some deployments, Some deployments, Some deployments, Some deployments]"
    by (simp add: callsSince_example updatedState_def)
  from g c u(2) m Create_example Update_example' show ?thesis
    by simp
qed

section \<open>The client registry\<close>

lemma builder_example:
  "newConfigBuilder [WithKubeconfig ''/etc/karmada.config'', WithUserAgent ''api'',
                     WithInsecureTLSSkipVerify True]
   = \<lparr>kubeconfigPath = ''/etc/karmada.config'', kubeContext = [], insecure = True,
      userAgent = ''api''\<rparr>"
  "newConfigBuilder [WithUserAgent ''api''] =
     \<lparr>kubeconfigPath = [], kubeContext = [], insecure = False, userAgent = ''api''\<rparr>"
  by (simp_all add: newConfigBuilder_def WithKubeconfig_def WithUserAgent_def
      WithInsecureTLSSkipVerify_def)

text \<open>
  Claim C8, as amended. \<open>InitKubeConfig\<close> takes the ambient in-cluster configuration when
  there is one, without looking at the credential file, and falls back to the credential
  file with its optional context only when there is none. \<open>InitKarmadaConfig\<close>, which sets
  the configurations of the Karmada control plane and of member access, builds all of
  them from the credential file: it never looks at the ambient configuration, and the
  process exits when the file cannot be used.
\<close>

theorem Init_credential_sources:
  "(\<forall>restConfig. InClusterConfig P = Inr restConfig \<longrightarrow>
      InitKubeConfig P options g =
        Returned (g\<lparr>kubernetesRestConfig :=
                       Some (restConfig\<lparr>UserAgent := DefaultUserAgent P @ ''/''
                                           @ userAgent (newConfigBuilder options),
                                         Insecure := insecure (newConfigBuilder options)\<rparr>),
                     kubernetesAPIConfig :=
                       Some (ConvertRestConfigToAPIConfig
                         (restConfig\<lparr>UserAgent := DefaultUserAgent P @ ''/''
                                          @ userAgent (newConfigBuilder options),
                                      Insecure := insecure (newConfigBuilder options)\<rparr>))\<rparr>))
   \<and> (\<forall>err. InClusterConfig P = Inl err \<longrightarrow>
      InitKubeConfig P options g =
        (case buildRestConfig P (newConfigBuilder options) of
           Inl e \<Rightarrow> Exited 1
         | Inr restConfig \<Rightarrow>
             (case buildAPIConfig P (newConfigBuilder options) of
                Inl e \<Rightarrow> Exited 1
              | Inr apiConfig \<Rightarrow>
                  Returned (g\<lparr>kubernetesRestConfig := Some restConfig,
                               kubernetesAPIConfig := Some apiConfig\<rparr>))))
   \<and> InitKarmadaConfig P options g =
        (case buildRestConfig P (newConfigBuilder options) of
           Inl e \<Rightarrow> Exited 1
         | Inr restConfig \<Rightarrow>
             (case buildAPIConfig P (newConfigBuilder options) of
                Inl e \<Rightarrow> Exited 1
              | Inr apiConfig \<Rightarrow>
                  Returned (g\<lparr>karmadaRestConfig := Some restConfig,
                               karmadaAPIConfig := Some apiConfig,
                               karmadaMemberConfig := Some restConfig\<rparr>)))
   \<and> InitKarmadaConfig (P\<lparr>InClusterConfig := ambient\<rparr>) options g = InitKarmadaConfig P options g
   \<and> buildRestConfig P (newConfigBuilder options) =
        (if kubeconfigPath (newConfigBuilder options) = [] then
           Inl (ErrorString ''must specify kubeconfig'')
         else (case LoadRestConfig P (kubeconfigPath (newConfigBuilder options))
                      (kubeContext (newConfigBuilder options)) of
                 Inl e \<Rightarrow> Inl e
               | Inr loaded \<Rightarrow>
                   Inr (loaded\<lparr>QPS := DefaultQPS P, Burst := DefaultBurst P,
                               UserAgent := DefaultUserAgent P @ ''/''
                                 @ userAgent (newConfigBuilder options),
                               Insecure := insecure (newConfigBuilder options)\<rparr>)))"
  by (auto simp: InitKubeConfig_def InitKarmadaConfig_def buildRestConfig_def buildAPIConfig_def
      Let_def split: sum.splits)

theorem Init_credential_sources_witness:
  "InitKubeConfig inClusterPlatform [WithKubeconfig ''/etc/karmada.config'', WithUserAgent ''api'',
       WithInsecureTLSSkipVerify True] noGlobals =
     Returned (noGlobals\<lparr>kubernetesRestConfig :=
                 Some (ambientConfig\<lparr>UserAgent := ''dashboard/api'', Insecure := True\<rparr>),
               kubernetesAPIConfig :=
                 Some (ConvertRestConfigToAPIConfig
                        (ambientConfig\<lparr>UserAgent := ''dashboard/api'', Insecure := True\<rparr>))\<rparr>)
   \<and> InitKubeConfig outOfClusterPlatform [WithKubeconfig ''/etc/karmada.config'',
       WithUserAgent ''api'', WithInsecureTLSSkipVerify True] noGlobals =
     Returned (noGlobals\<lparr>kubernetesRestConfig := Some karmadaConfig,
                          kubernetesAPIConfig := Some fileAPIConfig\<rparr>)
   \<and> InitKarmadaConfig inClusterPlatform [WithKubeconfig ''/etc/karmada.config'',
       WithUserAgent ''api'', WithInsecureTLSSkipVerify True] noGlobals =
     Returned karmadaGlobals"
proof -
  let ?o = "[WithKubeconfig ''/etc/karmada.config'', WithUserAgent ''api'',
             WithInsecureTLSSkipVerify True]"
  have i: "InClusterConfig inClusterPlatform = Inr ambientConfig"
    by (simp add: inClusterPlatform_def)
  have e: "InClusterConfig outOfClusterPlatform
             = Inl (ErrorString ''unable to load in-cluster configuration'')"
    by (simp add: outOfClusterPlatform_def)
  have b: "buildRestConfig inClusterPlatform (newConfigBuilder ?o) = Inr karmadaConfig"
    "buildRestConfig outOfClusterPlatform (newConfigBuilder ?o) = Inr karmadaConfig"
    "buildAPIConfig inClusterPlatform (newConfigBuilder ?o) = Inr fileAPIConfig"
    "buildAPIConfig outOfClusterPlatform (newConfigBuilder ?o) = Inr fileAPIConfig"
    by (simp_all add: builder_example buildRestConfig_def buildAPIConfig_def
        inClusterPlatform_def outOfClusterPlatform_def karmadaConfig_def fileConfig_def)
  from Init_credential_sources[of inClusterPlatform ?o noGlobals] i
  have 1: "InitKubeConfig inClusterPlatform ?o noGlobals =
     Returned (noGlobals\<lparr>kubernetesRestConfig :=
                 Some (ambientConfig\<lparr>UserAgent := ''dashboard/api'', Insecure := True\<rparr>),
               kubernetesAPIConfig :=
                 Some (ConvertRestConfigToAPIConfig
                        (ambientConfig\<lparr>UserAgent := ''dashboard/api'', Insecure := True\<rparr>))\<rparr>)"
    by (simp add: builder_example inClusterPlatform_def)
  from Init_credential_sources[of outOfClusterPlatform ?o noGlobals] e b
  have 2: "InitKubeConfig outOfClusterPlatform ?o noGlobals =
     Returned (noGlobals\<lparr>kubernetesRestConfig := Some karmadaConfig,
                          kubernetesAPIConfig := Some fileAPIConfig\<rparr>)"
    by simp
  from Init_credential_sources[of inClusterPlatform ?o noGlobals] b
  have 3: "InitKarmadaConfig inClusterPlatform ?o noGlobals = Returned karmadaGlobals"
    by (simp add: karmadaGlobals_def)
  from 1 2 3 show ?thesis by blast
qed

text \<open>
  The claim as it was stated fails for \<open>InitKarmadaConfig\<close>: inside a cluster, where the
  ambient configuration is there and \<open>InitKubeConfig\<close> takes it, \<open>InitKarmadaConfig\<close> exits
  when no credential file is given, and takes the file when one is given.
\<close>

theorem InitKarmadaConfig_ignores_ambient_counterexample:
  "InClusterConfig inClusterPlatform = Inr ambientConfig
   \<and> InitKarmadaConfig inClusterPlatform [WithUserAgent ''api''] noGlobals = Exited 1
   \<and> InitKubeConfig inClusterPlatform [WithUserAgent ''api''] noGlobals =
       Returned (noGlobals\<lparr>kubernetesRestConfig :=
                   Some (ambientConfig\<lparr>UserAgent := ''dashboard/api''\<rparr>),
                 kubernetesAPIConfig :=
                   Some (ConvertRestConfigToAPIConfig
                          (ambientConfig\<lparr>UserAgent := ''dashboard/api''\<rparr>))\<rparr>)
   \<and> InitKarmadaConfig inClusterPlatform [WithKubeconfig ''/etc/karmada.config''] noGlobals =
       Returned (noGlobals\<lparr>karmadaRestConfig :=
                   Some (fileConfig\<lparr>QPS := 1000, Burst := 2000, UserAgent := ''dashboard/''\<rparr>),
                 karmadaAPIConfig := Some fileAPIConfig,
                 karmadaMemberConfig :=
                   Some (fileConfig\<lparr>QPS := 1000, Burst := 2000, UserAgent := ''dashboard/''\<rparr>)\<rparr>)"
  by (simp add: InitKarmadaConfig_def InitKubeConfig_def buildRestConfig_def buildAPIConfig_def
      newConfigBuilder_def WithUserAgent_def WithKubeconfig_def inClusterPlatform_def Let_def
      ambientConfig_def fileConfig_def)

text \<open>
  \<open>InitKarmadaConfig\<close> leaves the registry ready for the getter, and the getter keeps it
  so.
\<close>

lemma InitKarmadaConfig_ready:
  assumes "InitKarmadaConfig P options g = Returned g'"
  shows "\<exists>restConfig apiConfig. karmadaReady restConfig apiConfig restConfig g'"
  using assms
  by (auto simp: InitKarmadaConfig_def Let_def karmadaReady_def split: sum.splits)











end
